theory Spec2Isabelle
  imports Complex_Main "HOL-Library.Sublist" "HOL-Library.Product_Lexorder"
begin

section \<open>Exceptions and floating-point values\<close>

text \<open>
  The exceptions of the modelled code, each with its message.
\<close>

datatype error =
    AssertionError string
  | ValueError string
  | OverflowError string
  | IndexError string
  | TypeError string
  | OSError string

text \<open>
  A float64 value is a finite number, an infinity or NaN; the sign of a zero is not
  kept. The arithmetic of numpy and scipy on such values is not part of the repository
  and rounds its results: it is a parameter of the model, the record \<open>numpy\<close>, of which
  nothing is assumed. Its fields stand for \<^verbatim>\<open>np.mean\<close> of an array, \<^verbatim>\<open>/\<close>, \<^verbatim>\<open>*\<close>,
  \<^verbatim>\<open>-\<close>, \<^verbatim>\<open>** 2\<close>, \<^verbatim>\<open>np.sqrt\<close>, \<^verbatim>\<open>np.log\<close>, \<^verbatim>\<open>np.percentile\<close> of an array
  that is not empty, and
  \<^verbatim>\<open>np.median(binned_statistic(time, f, statistic='std', bins=n_bin)[0])\<close>, which may
  raise.
\<close>

datatype nfloat = Num real | PInf | NInf | NaN

record numpy =
  np_mean :: "real list \<Rightarrow> nfloat"
  np_divide :: "nfloat \<Rightarrow> nfloat \<Rightarrow> nfloat"
  np_multiply :: "nfloat \<Rightarrow> nfloat \<Rightarrow> nfloat"
  np_subtract :: "nfloat \<Rightarrow> nfloat \<Rightarrow> nfloat"
  np_square :: "nfloat \<Rightarrow> nfloat"
  np_sqrt :: "nfloat \<Rightarrow> nfloat"
  np_log :: "nfloat \<Rightarrow> nfloat"
  np_percentile :: "nfloat list \<Rightarrow> real \<Rightarrow> nfloat"
  binned_std_median :: "real list \<Rightarrow> real list \<Rightarrow> int \<Rightarrow> error + nfloat"

text \<open>
  Comparisons are exact. \<^verbatim>\<open>x > 0\<close> is false for NaN. Sorting (\<^verbatim>\<open>np.argsort\<close>) puts
  the values in ascending order with NaN last: the order of \<open>sort_rank\<close>. \<^verbatim>\<open>np.min\<close>
  and \<^verbatim>\<open>np.max\<close> give NaN when the array holds one, and raise ValueError on an empty
  array.
\<close>

fun greater_zero :: "nfloat \<Rightarrow> bool" where
  "greater_zero (Num a) = (0 < a)"
| "greater_zero PInf = True"
| "greater_zero NInf = False"
| "greater_zero NaN = False"

fun is_finite :: "nfloat \<Rightarrow> bool" where
  "is_finite (Num a) = True"
| "is_finite _ = False"

fun sort_rank :: "nfloat \<Rightarrow> nat \<times> real" where
  "sort_rank NInf = (0, 0)"
| "sort_rank (Num a) = (1, a)"
| "sort_rank PInf = (2, 0)"
| "sort_rank NaN = (3, 0)"

definition smaller :: "nfloat \<Rightarrow> nfloat \<Rightarrow> nfloat" where
  "smaller a b = (if a = NaN \<or> b = NaN then NaN else if sort_rank a \<le> sort_rank b then a else b)"

definition larger :: "nfloat \<Rightarrow> nfloat \<Rightarrow> nfloat" where
  "larger a b = (if a = NaN \<or> b = NaN then NaN else if sort_rank a \<le> sort_rank b then b else a)"

definition np_min :: "nfloat list \<Rightarrow> error + nfloat" where
  "np_min xs =
     (case xs of
        [] \<Rightarrow> Inl (ValueError
                ''zero-size array to reduction operation minimum which has no identity'')
      | x # rest \<Rightarrow> Inr (fold smaller rest x))"

definition np_max :: "nfloat list \<Rightarrow> error + nfloat" where
  "np_max xs =
     (case xs of
        [] \<Rightarrow> Inl (ValueError
                ''zero-size array to reduction operation maximum which has no identity'')
      | x # rest \<Rightarrow> Inr (fold larger rest x))"

text \<open>
  Python's \<^verbatim>\<open>int\<close> of a float truncates towards zero; it raises ValueError on NaN and
  OverflowError on an infinity.
\<close>

definition int_of_float :: "real \<Rightarrow> int" where
  "int_of_float x = (if 0 \<le> x then \<lfloor>x\<rfloor> else \<lceil>x\<rceil>)"

fun python_int :: "nfloat \<Rightarrow> error + int" where
  "python_int (Num a) = Inr (int_of_float a)"
| "python_int NaN = Inl (ValueError ''cannot convert float NaN to integer'')"
| "python_int PInf = Inl (OverflowError ''cannot convert float infinity to integer'')"
| "python_int NInf = Inl (OverflowError ''cannot convert float infinity to integer'')"

subsection \<open>Exact arithmetic\<close>

text \<open>
  The arithmetic without rounding: what float64 computes whenever each result is a
  float64 number, as in the demonstrations below, whose data are small multiples of
  powers of two. Division by zero, the square root and the logarithm have their IEEE
  values at the border cases. The binned statistic puts each sample in one of \<open>n\<close>
  bins of equal width between the first and the last time, the last time in the last
  bin; the statistic of a bin is the standard deviation of its samples, NaN for an empty
  bin; the median of an array with a NaN is NaN.
\<close>

definition exact_mean :: "real list \<Rightarrow> nfloat" where
  "exact_mean xs = (if xs = [] then NaN else Num (sum_list xs / real (length xs)))"

fun exact_divide :: "nfloat \<Rightarrow> nfloat \<Rightarrow> nfloat" where
  "exact_divide (Num a) (Num b) =
     (if b \<noteq> 0 then Num (a / b) else if 0 < a then PInf else if a < 0 then NInf else NaN)"
| "exact_divide (Num a) PInf = Num 0"
| "exact_divide (Num a) NInf = Num 0"
| "exact_divide PInf (Num b) = (if 0 \<le> b then PInf else NInf)"
| "exact_divide NInf (Num b) = (if 0 \<le> b then NInf else PInf)"
| "exact_divide _ _ = NaN"

fun exact_multiply :: "nfloat \<Rightarrow> nfloat \<Rightarrow> nfloat" where
  "exact_multiply (Num a) (Num b) = Num (a * b)"
| "exact_multiply (Num a) PInf = (if 0 < a then PInf else if a < 0 then NInf else NaN)"
| "exact_multiply (Num a) NInf = (if 0 < a then NInf else if a < 0 then PInf else NaN)"
| "exact_multiply PInf (Num b) = (if 0 < b then PInf else if b < 0 then NInf else NaN)"
| "exact_multiply NInf (Num b) = (if 0 < b then NInf else if b < 0 then PInf else NaN)"
| "exact_multiply PInf PInf = PInf"
| "exact_multiply NInf NInf = PInf"
| "exact_multiply PInf NInf = NInf"
| "exact_multiply NInf PInf = NInf"
| "exact_multiply _ _ = NaN"

fun exact_subtract :: "nfloat \<Rightarrow> nfloat \<Rightarrow> nfloat" where
  "exact_subtract (Num a) (Num b) = Num (a - b)"
| "exact_subtract (Num a) PInf = NInf"
| "exact_subtract (Num a) NInf = PInf"
| "exact_subtract PInf (Num b) = PInf"
| "exact_subtract NInf (Num b) = NInf"
| "exact_subtract PInf NInf = PInf"
| "exact_subtract NInf PInf = NInf"
| "exact_subtract _ _ = NaN"

fun exact_sqrt :: "nfloat \<Rightarrow> nfloat" where
  "exact_sqrt (Num a) = (if 0 \<le> a then Num (sqrt a) else NaN)"
| "exact_sqrt PInf = PInf"
| "exact_sqrt _ = NaN"

fun exact_log :: "nfloat \<Rightarrow> nfloat" where
  "exact_log (Num a) = (if 0 < a then Num (ln a) else if a = 0 then NInf else NaN)"
| "exact_log PInf = PInf"
| "exact_log _ = NaN"

fun the_numbers :: "nfloat list \<Rightarrow> real list option" where
  "the_numbers [] = Some []"
| "the_numbers (Num a # xs) = map_option (\<lambda>ys. a # ys) (the_numbers xs)"
| "the_numbers (_ # xs) = None"

definition exact_percentile :: "nfloat list \<Rightarrow> real \<Rightarrow> nfloat" where
  "exact_percentile xs q =
     (case the_numbers xs of
        None \<Rightarrow> NaN
      | Some ys \<Rightarrow>
          (let s = sort ys;
               pos = q / 100 * real (length s - 1);
               lo = nat \<lfloor>pos\<rfloor>;
               hi = min (lo + 1) (length s - 1)
           in Num (s ! lo + (s ! hi - s ! lo) * (pos - real lo))))"

definition exact_std :: "real list \<Rightarrow> nfloat" where
  "exact_std xs =
     (if xs = [] then NaN
      else let m = sum_list xs / real (length xs)
           in Num (sqrt (sum_list (map (\<lambda>x. (x - m)\<^sup>2) xs) / real (length xs))))"

definition exact_median :: "nfloat list \<Rightarrow> nfloat" where
  "exact_median xs =
     (case the_numbers xs of
        None \<Rightarrow> NaN
      | Some ys \<Rightarrow>
          (let s = sort ys; n = length s
           in if n = 0 then NaN
              else if odd n then Num (s ! (n div 2))
              else Num ((s ! (n div 2 - 1) + s ! (n div 2)) / 2)))"

definition bin_index :: "real \<Rightarrow> real \<Rightarrow> nat \<Rightarrow> real \<Rightarrow> nat" where
  "bin_index lo hi n t = (if t = hi then n - 1 else nat \<lfloor>(t - lo) * real n / (hi - lo)\<rfloor>)"

definition exact_binned_std_median :: "real list \<Rightarrow> real list \<Rightarrow> int \<Rightarrow> error + nfloat" where
  "exact_binned_std_median t f n_bin =
     (if n_bin < 1 then Inl (ValueError ''`bins` must be positive'')
      else if t = [] \<or> length t \<noteq> length f
        then Inl (ValueError ''the samples and the values must be arrays of one length'')
      else
        let lo = (if Min (set t) = Max (set t) then Min (set t) - 1 / 2 else Min (set t));
            hi = (if Min (set t) = Max (set t) then Max (set t) + 1 / 2 else Max (set t));
            n = nat n_bin;
            in_bin = (\<lambda>b. map snd (filter (\<lambda>(ti, fi). bin_index lo hi n ti = b) (zip t f)))
        in Inr (exact_median (map (\<lambda>b. exact_std (in_bin b)) [0..<n])))"

definition exact_np :: numpy where
  "exact_np = \<lparr>np_mean = exact_mean, np_divide = exact_divide, np_multiply = exact_multiply,
     np_subtract = exact_subtract, np_square = (\<lambda>x. exact_multiply x x),
     np_sqrt = exact_sqrt, np_log = exact_log, np_percentile = exact_percentile,
     binned_std_median = exact_binned_std_median\<rparr>"

section \<open>Upload adapter (\<open>UploadToExofop.upload\<close>, exofop_upload.py)\<close>

text \<open>
  Python's \<^verbatim>\<open>str.startswith\<close> and \<^verbatim>\<open>str.endswith\<close> on file names.
\<close>

definition startswith :: "string \<Rightarrow> string \<Rightarrow> bool" where
  "startswith s p = prefix p s"

definition endswith :: "string \<Rightarrow> string \<Rightarrow> bool" where
  "endswith s p = suffix p s"

text \<open>
  The three HTTP POST calls of \<^verbatim>\<open>upload\<close>: the login
  (\<^verbatim>\<open>password_check.php\<close>), the observation summary (\<^verbatim>\<open>insert_tseries.php\<close>)
  and one file submission (\<^verbatim>\<open>insert_file.php\<close>) with the path of the opened file and
  its payload. A call to \<^verbatim>\<open>session.post\<close> either returns a response, of which the
  code reads the truth value and the text, or raises; \<^verbatim>\<open>respond\<close> gives that outcome
  from the requests made so far and the request at hand.
\<close>

datatype request =
    PasswordCheck "(string \<times> string) list"
  | InsertTseries "(string \<times> string) list"
  | InsertFile string "(string \<times> string) list"

datatype outcome = Response bool string | Raises

text \<open>
  The printed output: a line of text, or the line that \<^verbatim>\<open>print(files)\<close> writes for
  the dictionary holding the file opened at the given path.
\<close>

datatype out_line = Text string | FilesDict string

record session =
  posts :: "request list"
  printed :: "out_line list"
  raised :: bool

record environment =
  figures_is_dir :: bool
  is_file :: "string \<Rightarrow> bool"
  open_ok :: "string \<Rightarrow> bool"
  respond :: "request list \<Rightarrow> request \<Rightarrow> outcome"

text \<open>
  The fields of the uploader the file loop reads. Lines 63-110 of the source build
  \<^verbatim>\<open>toi\<close>, \<^verbatim>\<open>tic\<close>, \<^verbatim>\<open>self.tag\<close> and the \<^verbatim>\<open>entries\<close> payload from the
  observation's metadata by string formatting; they are taken here as the resulting
  strings. \<^verbatim>\<open>figures_is_dir\<close>, \<^verbatim>\<open>is_file\<close> and \<^verbatim>\<open>open_ok\<close> are the file
  system's answers for the figures directory, a file name in it, and opening a path.
\<close>

record uploader =
  toi :: string
  tic :: string
  tag :: string
  entries :: "(string \<times> string) list"
  username :: string
  password :: string
  skip_summary_upload :: bool
  skip_file_upload :: bool
  figures_path :: string
  fileList :: "string list"

definition print :: "string \<Rightarrow> session \<Rightarrow> session" where
  "print l s = s\<lparr>printed := printed s @ [Text l]\<rparr>"

definition print_files :: "string \<Rightarrow> session \<Rightarrow> session" where
  "print_files file s = s\<lparr>printed := printed s @ [FilesDict file]\<rparr>"

definition sent :: "request \<Rightarrow> session \<Rightarrow> session" where
  "sent r s = s\<lparr>posts := posts s @ [r]\<rparr>"

definition raise :: "session \<Rightarrow> session" where
  "raise s = s\<lparr>raised := True\<rparr>"

text \<open>The \<^verbatim>\<open>if/elif\<close> chain of lines 139-164, in the source's order.\<close>

definition description_of :: "string \<Rightarrow> string" where
  "description_of fileName =
     (if endswith fileName ''stars.png'' then ''Field Image with Apertures''
      else if endswith fileName ''model.png'' then ''Light curve plot target star with model''
      else if endswith fileName ''psf.png'' then ''Seeing profile''
      else if endswith fileName ''comparison.png'' then ''Light curve plot comparison stars''
      else if endswith fileName ''systematics.png'' then ''AstroImageJ Photometry Aperture File''
      else if endswith fileName ''Light curve plot target target star with systematics''
        then ''AstroImageJ Plot Configuration File''
      else if endswith fileName ''measurements.txt'' then '' Measurements Table''
      else if endswith fileName ''lightcurve.png'' then ''Light curve plot target star''
      else [])"

definition file_payload :: "uploader \<Rightarrow> string \<Rightarrow> (string \<times> string) list" where
  "file_payload u description =
     [(''file_type'', ''Light_Curve''), (''planet'', toi u), (''file_desc'', description),
      (''file_tag'', tag u), (''groupname'', ''tfopwg''), (''propflag'', ''on''),
      (''id'', tic u)]"

text \<open>
  The body of the loop over \<^verbatim>\<open>self.fileList\<close> (lines 138-197). An exception of
  \<^verbatim>\<open>open\<close> or \<^verbatim>\<open>session.post\<close> leaves the loop: the session is marked as raised
  and no further file is handled.
\<close>

definition upload_one :: "environment \<Rightarrow> uploader \<Rightarrow> string \<Rightarrow> session \<Rightarrow> session" where
  "upload_one env u fileName s =
     (if is_file env fileName \<and> startswith fileName ''TIC'' \<and> \<not> startswith fileName ''TIC ''
      then
        let description = description_of fileName;
            s1 = (if endswith fileName ''stars.png''
                  then print description (print ''stars'' s) else s)
        in if description = [] then print (''******NOT UPLOADED: '' @ fileName) s1
           else
             let s2 = print (fileName @ '' <class 'str'>'') s1;
                 file = figures_path u @ ''/'' @ fileName
             in if \<not> open_ok env file then raise s2
                else
                  let s3 = print_files file
                             (print description (print (tic u) (print (toi u) s2)));
                      req = InsertFile file (file_payload u description)
                  in case respond env (posts s3) req of
                       Raises \<Rightarrow> raise (sent req s3)
                     | Response ok text \<Rightarrow>
                         print (''UPLOADED:'' @ fileName)
                           (print (if ok then ''Uploading file: '' @ fileName
                                   else ''ERROR: File upload failed: '' @ fileName)
                              (print text (sent req s3)))
      else print (''******NOT UPLOADED: '' @ fileName) s)"

fun upload_files :: "environment \<Rightarrow> uploader \<Rightarrow> string list \<Rightarrow> session \<Rightarrow> session" where
  "upload_files env u [] s = s"
| "upload_files env u (fileName # rest) s =
     (let s' = upload_one env u fileName s
      in if raised s' then s' else upload_files env u rest s')"

definition login :: "environment \<Rightarrow> uploader \<Rightarrow> session \<Rightarrow> session" where
  "login env u s =
     (let credentials = [(''username'', username u), (''password'', password u),
                         (''ref'', ''login_user''), (''ref_page'', ''/tess/'')];
          req = PasswordCheck credentials
      in case respond env (posts s) req of
           Raises \<Rightarrow> raise (sent req s)
         | Response ok text \<Rightarrow>
             print (if ok then ''Login OK.'' else ''ERROR:  Login did not work.'')
               (sent req s))"

definition summary_upload :: "environment \<Rightarrow> uploader \<Rightarrow> session \<Rightarrow> session" where
  "summary_upload env u s =
     (if \<not> skip_summary_upload u then
        let req = InsertTseries (entries u)
        in case respond env (posts s) req of
             Raises \<Rightarrow> raise (sent req s)
           | Response ok text \<Rightarrow>
               print (if ok then ''Added new Time Series...''
                      else ''ERROR: Time Series Add failed.'')
                 (sent req s)
      else print ''Skipped observation summary upload per user request.'' s)"

definition file_upload :: "environment \<Rightarrow> uploader \<Rightarrow> session \<Rightarrow> session" where
  "file_upload env u s =
     (if \<not> skip_file_upload u then upload_files env u (fileList u) s
      else print ''Skipped file uploads per user request.'' s)"

definition upload :: "environment \<Rightarrow> uploader \<Rightarrow> session" where
  "upload env u =
     (let s0 = \<lparr>posts = [], printed = [], raised = False\<rparr>
      in if figures_is_dir env then
           let s1 = login env u s0
           in if raised s1 then s1
              else let s2 = summary_upload env u s1
                   in if raised s2 then s2 else file_upload env u s2
         else s0)"

text \<open>
  The suffixes the chain tests, the prefix condition of line 138, and what it means
  for a file of the list to be in a file submission or in the log.
\<close>

definition known_suffixes :: "string list" where
  "known_suffixes = [''stars.png'', ''model.png'', ''psf.png'', ''comparison.png'',
     ''systematics.png'', ''Light curve plot target target star with systematics'',
     ''measurements.txt'', ''lightcurve.png'']"

definition recognized :: "string \<Rightarrow> bool" where
  "recognized fileName = list_ex (endswith fileName) known_suffixes"

definition tic_prefixed :: "string \<Rightarrow> bool" where
  "tic_prefixed fileName = (startswith fileName ''TIC'' \<and> \<not> startswith fileName ''TIC '')"

fun carries_file :: "uploader \<Rightarrow> string \<Rightarrow> request \<Rightarrow> bool" where
  "carries_file u fileName (InsertFile file payload) = (file = figures_path u @ ''/'' @ fileName)"
| "carries_file u fileName _ = False"

definition uploaded :: "uploader \<Rightarrow> session \<Rightarrow> string \<Rightarrow> bool" where
  "uploaded u s fileName = list_ex (carries_file u fileName) (posts s)"

definition logged_not_uploaded :: "session \<Rightarrow> string \<Rightarrow> bool" where
  "logged_not_uploaded s fileName = (Text (''******NOT UPLOADED: '' @ fileName) \<in> set (printed s))"

text \<open>A report folder with an adversarial file list, used to run the adapter.\<close>

definition demo_env :: environment where
  "demo_env = \<lparr>figures_is_dir = True, is_file = (\<lambda>_. True), open_ok = (\<lambda>_. True),
                respond = (\<lambda>_ _. Response True ''ok'')\<rparr>"

definition demo_uploader :: uploader where
  "demo_uploader = \<lparr>toi = ''TOI123'', tic = ''261136679'', tag = ''20200124_user_Trappist_1'',
     entries = [], username = ''user'', password = ''secret'',
     skip_summary_upload = False, skip_file_upload = False,
     figures_path = ''report/figures'',
     fileList = [''TIC261136679_stars.png'', ''TIC261136679_stars.png.bak'',
                 ''stars.png'', ''TIC 261136679_lightcurve.png'', ''TIC261136679_raw.png'']\<rparr>"

section \<open>Precision estimator (\<open>Observation.plot_precision\<close>, observation.py lines 535-583)\<close>

text \<open>
  The light curve that carries the best aperture; \<^verbatim>\<open>self.lcs\<close> is \<^verbatim>\<open>None\<close> until it
  has been computed.
\<close>

record lightcurve =
  best_aperture_id :: nat

text \<open>
  The fields of the observation that \<^verbatim>\<open>plot_precision\<close> reads; its arrays hold finite
  numbers. \<^verbatim>\<open>flux_arrays\<close> and \<^verbatim>\<open>error_arrays\<close> hold, for each aperture, one time
  series per star (\<^verbatim>\<open>self.fluxes.as_array(aperture)\<close> returns the two arrays of that
  aperture); \<^verbatim>\<open>apertures_area\<close> holds, for each image, the area of each aperture.
\<close>

record observation =
  time :: "real list"
  exptime :: "real list"
  sky :: "real list"
  lcs :: "lightcurve option"
  flux_arrays :: "real list list list"
  error_arrays :: "real list list list"
  apertures_area :: "real list list"

text \<open>Lines 536-538: the aperture given, or the best aperture of the light curve.\<close>

definition select_aperture :: "observation \<Rightarrow> nat option \<Rightarrow> error + nat" where
  "select_aperture obs aperture =
     (case aperture of
        Some a \<Rightarrow> Inr a
      | None \<Rightarrow>
          (case lcs obs of
             None \<Rightarrow> Inl (AssertionError
               ''You must set 'aperture' kwargs (light-curve not present to pick best aperture id)'')
           | Some lc \<Rightarrow> Inr (best_aperture_id lc)))"

text \<open>
  Line 540: \<^verbatim>\<open>n_bin = int(bins / (np.mean(self.exptime) / (60 * 60 * 24)))\<close>, the two
  divisions in float64.
\<close>

definition bin_count :: "numpy \<Rightarrow> observation \<Rightarrow> real \<Rightarrow> error + int" where
  "bin_count np obs bins =
     python_int (np_divide np (Num bins)
                   (np_divide np (np_mean np (exptime obs)) (Num (60 * 60 * 24))))"

text \<open>Indexing a list as Python does for an index that is not negative.\<close>

definition getitem :: "'a list \<Rightarrow> nat \<Rightarrow> error + 'a" where
  "getitem xs i = (if i < length xs then Inr (xs ! i) else Inl (IndexError ''index out of range''))"

definition as_array :: "observation \<Rightarrow> nat \<Rightarrow> error + (real list list \<times> real list list)" where
  "as_array obs aperture =
     (case getitem (flux_arrays obs) aperture of
        Inl e \<Rightarrow> Inl e
      | Inr f \<Rightarrow> (case getitem (error_arrays obs) aperture of
                    Inl e \<Rightarrow> Inl e
                  | Inr e \<Rightarrow> Inr (f, e)))"

text \<open>The list comprehension of lines 549-550: the first call that raises ends it.\<close>

fun error_estimates :: "numpy \<Rightarrow> real list \<Rightarrow> int \<Rightarrow> real list list \<Rightarrow> error + nfloat list" where
  "error_estimates np t n_bin [] = Inr []"
| "error_estimates np t n_bin (f # fs) =
     (case binned_std_median np t f n_bin of
        Inl e \<Rightarrow> Inl e
      | Inr v \<Rightarrow> (case error_estimates np t n_bin fs of
                    Inl e \<Rightarrow> Inl e
                  | Inr vs \<Rightarrow> Inr (v # vs)))"

definition aperture_area :: "observation \<Rightarrow> nat \<Rightarrow> error + real" where
  "aperture_area obs aperture =
     (case getitem (apertures_area obs) 0 of
        Inl e \<Rightarrow> Inl e
      | Inr row \<Rightarrow> getitem row aperture)"

text \<open>
  Indexing an array with a boolean array (\<^verbatim>\<open>a[positive_est]\<close>), with an index array
  (\<^verbatim>\<open>a[sorted_fluxes_idxs]\<close>), and \<^verbatim>\<open>np.argsort\<close>, whose result puts the values in
  ascending order (equal values are taken here in the order of their positions).
\<close>

definition mask :: "'a list \<Rightarrow> bool list \<Rightarrow> 'a list" where
  "mask xs bs = map fst (filter snd (zip xs bs))"

definition take_idxs :: "'a list \<Rightarrow> nat list \<Rightarrow> 'a list" where
  "take_idxs xs idxs = map (\<lambda>i. xs ! i) idxs"

definition argsort :: "nfloat list \<Rightarrow> nat list" where
  "argsort xs = sort_key (\<lambda>i. sort_rank (xs ! i)) [0..<length xs]"

text \<open>
  \<^verbatim>\<open>plt.ylim\<close> and \<^verbatim>\<open>plt.xlim\<close> with two limits: matplotlib raises ValueError when
  a limit is NaN or an infinity.
\<close>

definition set_limits :: "nfloat \<Rightarrow> nfloat \<Rightarrow> error + (nfloat \<times> nfloat)" where
  "set_limits lo hi =
     (if is_finite lo \<and> is_finite hi then Inr (lo, hi)
      else Inl (ValueError ''Axis limits cannot be NaN or Inf''))"

text \<open>
  Lines 576-578: \<^verbatim>\<open>np.percentile\<close> of an empty array raises IndexError, so the
  estimator raises when no star is left after the filter.
\<close>

definition y_limits :: "numpy \<Rightarrow> nfloat list \<Rightarrow> error + (nfloat \<times> nfloat)" where
  "y_limits np inv_snr_estimate =
     (if inv_snr_estimate = []
      then Inl (IndexError ''index -1 is out of bounds for axis 0 with size 0'')
      else set_limits (np_multiply np (Num (1 / 2)) (np_percentile np inv_snr_estimate 2))
                      (np_multiply np (Num (3 / 2)) (np_percentile np inv_snr_estimate 98)))"

text \<open>Line 579: \<^verbatim>\<open>plt.xlim(np.min(np.log(mean_fluxes)), np.max(np.log(mean_fluxes)))\<close>.\<close>

definition x_limits :: "numpy \<Rightarrow> nfloat list \<Rightarrow> error + (nfloat \<times> nfloat)" where
  "x_limits np mean_fluxes =
     (case np_min (map (np_log np) mean_fluxes) of
        Inl e \<Rightarrow> Inl e
      | Inr lo \<Rightarrow> (case np_max (map (np_log np) mean_fluxes) of
                     Inl e \<Rightarrow> Inl e
                   | Inr hi \<Rightarrow> set_limits lo hi))"

text \<open>
  The figure: the four data series handed to \<^verbatim>\<open>plt.plot\<close> (lines 566-574), in the
  order of the calls (the empirical points, the photon-noise curve, the background-noise
  curve, the CCD-equation curve), and the limits of the axes. The legend, the scale,
  the labels and the title are not modelled.
\<close>

record figure =
  rms_x :: "nfloat list"
  rms_y :: "nfloat list"
  photon_x :: "nfloat list"
  photon_y :: "nfloat list"
  background_x :: "nfloat list"
  background_y :: "nfloat list"
  ccd_x :: "nfloat list"
  ccd_y :: "nfloat list"
  ylim :: "nfloat \<times> nfloat"
  xlim :: "nfloat \<times> nfloat"

text \<open>Lines 556-579, from the means and the estimates of the stars.\<close>

definition plot_series ::
  "numpy \<Rightarrow> nfloat list \<Rightarrow> nfloat list \<Rightarrow> nfloat list \<Rightarrow> nfloat \<Rightarrow> real \<Rightarrow> error + figure" where
  "plot_series np mean_fluxes0 mean_errors error_estimate sky_level area =
     (let ccd_equation0 = map2 (np_divide np) mean_errors mean_fluxes0;
          inv_snr_estimate0 = map2 (np_divide np) error_estimate mean_fluxes0;
          positive_est = map greater_zero inv_snr_estimate0;
          mean_fluxes = mask mean_fluxes0 positive_est;
          inv_snr_estimate = mask inv_snr_estimate0 positive_est;
          ccd_equation = mask ccd_equation0 positive_est;
          sorted_fluxes_idxs = argsort mean_fluxes;
          background = np_sqrt np (np_multiply np sky_level (Num area))
      in case y_limits np inv_snr_estimate of
           Inl e \<Rightarrow> Inl e
         | Inr yl \<Rightarrow>
        (case x_limits np mean_fluxes of
           Inl e \<Rightarrow> Inl e
         | Inr xl \<Rightarrow>
             Inr \<lparr>rms_x = map (np_log np) mean_fluxes,
                  rms_y = inv_snr_estimate,
                  photon_x = take_idxs (map (np_log np) mean_fluxes) sorted_fluxes_idxs,
                  photon_y = take_idxs (map (\<lambda>f. np_divide np (np_sqrt np f) f) mean_fluxes)
                               sorted_fluxes_idxs,
                  background_x = take_idxs (map (np_log np) mean_fluxes) sorted_fluxes_idxs,
                  background_y = take_idxs (map (\<lambda>f. np_divide np background f) mean_fluxes)
                                   sorted_fluxes_idxs,
                  ccd_x = take_idxs (map (np_log np) mean_fluxes) sorted_fluxes_idxs,
                  ccd_y = take_idxs ccd_equation sorted_fluxes_idxs,
                  ylim = yl, xlim = xl\<rparr>))"

text \<open>Lines 544-579: the arrays of one aperture, the estimates, and the plots.\<close>

definition precision_curves :: "numpy \<Rightarrow> observation \<Rightarrow> nat \<Rightarrow> int \<Rightarrow> error + figure" where
  "precision_curves np obs aperture n_bin =
     (case as_array obs aperture of
        Inl e \<Rightarrow> Inl e
      | Inr (fluxes, errors) \<Rightarrow>
     (case error_estimates np (time obs) n_bin fluxes of
        Inl e \<Rightarrow> Inl e
      | Inr error_estimate \<Rightarrow>
     (case aperture_area obs aperture of
        Inl e \<Rightarrow> Inl e
      | Inr area \<Rightarrow>
          plot_series np (map (np_mean np) fluxes) (map (np_mean np) errors) error_estimate
            (np_mean np (sky obs)) area)))"

text \<open>An \<^verbatim>\<open>assert\<close> statement with its message.\<close>

definition assert_that :: "bool \<Rightarrow> string \<Rightarrow> error + unit" where
  "assert_that cond msg = (if cond then Inr () else Inl (AssertionError msg))"

definition plot_precision :: "numpy \<Rightarrow> observation \<Rightarrow> real \<Rightarrow> nat option \<Rightarrow> error + figure" where
  "plot_precision np obs bins aperture0 =
     (case select_aperture obs aperture0 of
        Inl e \<Rightarrow> Inl e
      | Inr aperture \<Rightarrow>
     (case bin_count np obs bins of
        Inl e \<Rightarrow> Inl e
      | Inr n_bin \<Rightarrow>
     (case assert_that (int (length (time obs)) > n_bin)
             ''Your 'bins' size is less than the total exposure'' of
        Inl e \<Rightarrow> Inl e
      | Inr _ \<Rightarrow> precision_curves np obs aperture n_bin)))"

text \<open>
  The stars whose empirical estimate of the inverse signal-to-noise ratio is strictly
  positive, in the order of the arrays, and the same stars taken by ascending mean
  flux; \<open>F\<close> holds the mean flux and \<open>es\<close> the noise estimate of each star.
\<close>

definition inv_snr :: "numpy \<Rightarrow> nfloat list \<Rightarrow> nfloat list \<Rightarrow> nat \<Rightarrow> nfloat" where
  "inv_snr np F es j = np_divide np (es ! j) (F ! j)"

definition positive_stars :: "numpy \<Rightarrow> nfloat list \<Rightarrow> nfloat list \<Rightarrow> nat list" where
  "positive_stars np F es = filter (\<lambda>j. greater_zero (inv_snr np F es j)) [0..<length F]"

definition stars_by_flux :: "numpy \<Rightarrow> nfloat list \<Rightarrow> nfloat list \<Rightarrow> nat list" where
  "stars_by_flux np F es =
     (let kept = positive_stars np F es
      in map (\<lambda>i. kept ! i) (argsort (map (\<lambda>j. F ! j) kept)))"

definition ascending :: "nfloat list \<Rightarrow> bool" where
  "ascending xs = sorted (map sort_rank xs)"

text \<open>
  Three stars observed in four images of an hour and a half of exposure each, taken on
  the 31st of May 2020 from midnight (Julian date 2459000.5), the first two and the
  last two an hour and a half apart. The first star varies by 1 around a flux of 4, the
  second by a half around a flux of 1, the third is constant.
\<close>

definition demo_obs :: observation where
  "demo_obs = \<lparr>time = [2459000.5, 2459000.5625, 2459000.6875, 2459000.75],
     exptime = [5400, 5400, 5400, 5400], sky = [1, 1, 1, 1],
     lcs = Some \<lparr>best_aperture_id = 0\<rparr>,
     flux_arrays = [[[3, 5, 3, 5], [1 / 2, 3 / 2, 1 / 2, 3 / 2], [9, 9, 9, 9]]],
     error_arrays = [[[2, 2, 2, 2], [1, 1, 1, 1], [3, 3, 3, 3]]],
     apertures_area = [[4], [4], [4], [4]]\<rparr>"

section \<open>Measurement table (\<open>ObservationReport.to_csv_report\<close>, reports/__init__.py lines 237-273)\<close>

text \<open>
  \<^verbatim>\<open>"%s" % i\<close> for a star index: the decimal digits of a natural number.
\<close>

definition digit_chars :: string where
  "digit_chars = ''0123456789''"

fun str_nat :: "nat \<Rightarrow> string" where
  "str_nat n =
     (if n < 10 then [digit_chars ! n]
      else str_nat (n div 10) @ [digit_chars ! (n mod 10)])"

declare str_nat.simps [simp del]

text \<open>Reading the digits back, to tell the names of two stars apart.\<close>

definition digit_value :: "char \<Rightarrow> nat" where
  "digit_value c = of_char c - 48"

definition nat_of_str :: "string \<Rightarrow> nat" where
  "nat_of_str s = foldl (\<lambda>a c. 10 * a + digit_value c) 0 s"

text \<open>
  The report is an observation with more fields (\<^verbatim>\<open>class ObservationReport(Observation)\<close>).
  \<^verbatim>\<open>comps\<close> holds the comparison stars of each aperture; \<^verbatim>\<open>diff_fluxes\<close> and
  \<^verbatim>\<open>diff_errors\<close> hold, for each aperture and each star, a time series; the other
  fields are the time series of the target and of the auxiliary measurements. The
  fields from \<^verbatim>\<open>RA\<close> on are read by the metadata table; \<^verbatim>\<open>datetimes\<close> is
  \<^verbatim>\<open>Time(self.time, format='jd', scale='utc').to_datetime()\<close>, each date and time
  given in microseconds since midnight of the first day of the year 1.
\<close>

record report = observation +
  aperture :: nat
  comps :: "nat list list"
  diff_fluxes :: "real list list list"
  diff_errors :: "real list list list"
  time_format :: string
  diff_flux :: "real list"
  diff_error :: "real list"
  dx :: "real list"
  dy :: "real list"
  fwhm :: "real list"
  airmass :: "real list"
  RA :: string
  DEC :: string
  apertures_radii :: "real list list"
  telescope_name :: string
  filter_name :: string
  datetimes :: "int list"

text \<open>
  \<^verbatim>\<open>a[start::2] = values\<close> on a list: the values are written at every second position
  from \<^verbatim>\<open>start\<close>; Python raises ValueError when the number of values is not the size
  of the slice.
\<close>

fun assign_every_second :: "'a list \<Rightarrow> nat \<Rightarrow> 'a list \<Rightarrow> 'a list" where
  "assign_every_second xs i [] = xs"
| "assign_every_second xs i (v # vs) = assign_every_second (xs[i := v]) (i + 2) vs"

definition slice_assign :: "'a list \<Rightarrow> nat \<Rightarrow> 'a list \<Rightarrow> error + 'a list" where
  "slice_assign xs start vs =
     (if length vs = (length xs + 1 - start) div 2 then Inr (assign_every_second xs start vs)
      else Inl (ValueError ''attempt to assign sequence to extended slice of another size''))"

text \<open>
  Lines 250-252 and 255-257: a list of \<^verbatim>\<open>None\<close> of the length of both lists, filled
  at the even positions from the first list and at the odd positions from the second.
\<close>

definition interleaved :: "'a list \<Rightarrow> 'a list \<Rightarrow> error + 'a option list" where
  "interleaved evens odds =
     (let list_columns = replicate (length evens + length odds) None
      in case slice_assign list_columns 0 (map Some evens) of
           Inl e \<Rightarrow> Inl e
         | Inr list_columns' \<Rightarrow> slice_assign list_columns' 1 (map Some odds))"

text \<open>
  A Python dictionary keeps its keys in the order of their first insertion; storing
  under a key that is present replaces its value in place.
\<close>

fun dict_set :: "'k \<Rightarrow> 'v \<Rightarrow> ('k \<times> 'v) list \<Rightarrow> ('k \<times> 'v) list" where
  "dict_set k v [] = [(k, v)]"
| "dict_set k v ((k', v') # d) = (if k' = k then (k, v) # d else (k', v') # dict_set k v d)"

definition dict_of :: "('k \<times> 'v) list \<Rightarrow> ('k \<times> 'v) list" where
  "dict_of items = fold (\<lambda>(k, v) d. dict_set k v d) items []"

text \<open>
  The list comprehensions of lines 253-254: \<^verbatim>\<open>a[self.aperture, i]\<close> for each comparison
  star, an IndexError when the aperture or a star is out of range.
\<close>

fun star_series :: "real list list list \<Rightarrow> nat \<Rightarrow> nat list \<Rightarrow> error + real list list" where
  "star_series a ap [] = Inr []"
| "star_series a ap (i # stars) =
     (case getitem a ap of
        Inl e \<Rightarrow> Inl e
      | Inr per_star \<Rightarrow>
          (case getitem per_star i of
             Inl e \<Rightarrow> Inl e
           | Inr series \<Rightarrow>
               (case star_series a ap stars of
                  Inl e \<Rightarrow> Inl e
                | Inr rest \<Rightarrow> Inr (series # rest))))"

text \<open>
  \<^verbatim>\<open>pd.DataFrame\<close> of an ordered dictionary of arrays: the columns in the order of
  the keys, one row for each position of the arrays, a ValueError when the arrays differ
  in length. A value that is \<^verbatim>\<open>None\<close> is a scalar and fills its column. The table
  stands for the file that \<^verbatim>\<open>df.to_csv(destination, sep=sep, index=False)\<close> writes:
  the header line, then one line for each row; how a number is printed is not modelled.
\<close>

record data_frame =
  columns :: "string option list"
  rows :: "real option list list"

definition cell :: "real list option \<Rightarrow> nat \<Rightarrow> real option" where
  "cell v r = (case v of None \<Rightarrow> None | Some a \<Rightarrow> Some (a ! r))"

definition DataFrame :: "(string option \<times> real list option) list \<Rightarrow> error + data_frame" where
  "DataFrame d =
     (let lengths = remdups (concat (map (\<lambda>(k, v). case v of None \<Rightarrow> [] | Some a \<Rightarrow> [length a]) d))
      in case lengths of
           [] \<Rightarrow> (if d = [] then Inr \<lparr>columns = [], rows = []\<rparr>
                  else Inl (ValueError ''If using all scalar values, you must pass an index''))
         | [n] \<Rightarrow> Inr \<lparr>columns = map fst d,
                      rows = map (\<lambda>r. map (\<lambda>(k, v). cell v r) d) [0..<n]\<rparr>
         | _ \<Rightarrow> Inl (ValueError ''All arrays must be of the same length''))"

definition to_csv_report :: "report \<Rightarrow> error + data_frame" where
  "to_csv_report obs =
     (case getitem (comps obs) (aperture obs) of
        Inl e \<Rightarrow> Inl e
      | Inr comparison_stars \<Rightarrow>
     (let list_diff = map (\<lambda>i. ''DIFF_FLUX_C'' @ str_nat i) comparison_stars;
          list_err = map (\<lambda>i. ''DIFF_ERROR_C'' @ str_nat i) comparison_stars
      in case interleaved list_diff list_err of
        Inl e \<Rightarrow> Inl e
      | Inr list_columns \<Rightarrow>
     (case star_series (diff_fluxes obs) (aperture obs) comparison_stars of
        Inl e \<Rightarrow> Inl e
      | Inr list_diff_array \<Rightarrow>
     (case star_series (diff_errors obs) (aperture obs) comparison_stars of
        Inl e \<Rightarrow> Inl e
      | Inr list_err_array \<Rightarrow>
     (case interleaved list_diff_array list_err_array of
        Inl e \<Rightarrow> Inl e
      | Inr list_columns_array \<Rightarrow>
          DataFrame (dict_of (
            [(Some (if time_format obs = ''bjd_tdb'' then ''BJD-TDB'' else ''JD-UTC''),
                Some (time obs)),
             (Some ''DIFF_FLUX_T1'', Some (diff_flux obs)),
             (Some ''DIFF_ERROR_T1'', Some (diff_error obs))]
            @ dict_of (zip list_columns list_columns_array)
            @ [(Some ''dx'', Some (dx obs)),
               (Some ''dy'', Some (dy obs)),
               (Some ''FWHM'', Some (fwhm obs)),
               (Some ''SKYLEVEL'', Some (sky obs)),
               (Some ''AIRMASS'', Some (airmass obs)),
               (Some ''EXPOSURE'', Some (exptime obs))])))))))"

text \<open>
  The column names the table is to have: the time column, the target, one pair for each
  comparison star, the auxiliary columns.
\<close>

definition expected_columns :: "string \<Rightarrow> nat list \<Rightarrow> string list" where
  "expected_columns time_column stars =
     [time_column, ''DIFF_FLUX_T1'', ''DIFF_ERROR_T1'']
     @ concat (map (\<lambda>i. [''DIFF_FLUX_C'' @ str_nat i, ''DIFF_ERROR_C'' @ str_nat i]) stars)
     @ [''dx'', ''dy'', ''FWHM'', ''SKYLEVEL'', ''AIRMASS'', ''EXPOSURE'']"

definition expected_arrays :: "report \<Rightarrow> nat list \<Rightarrow> real list list" where
  "expected_arrays obs stars =
     [time obs, diff_flux obs, diff_error obs]
     @ concat (map (\<lambda>i. [diff_fluxes obs ! aperture obs ! i, diff_errors obs ! aperture obs ! i])
                 stars)
     @ [dx obs, dy obs, fwhm obs, sky obs, airmass obs, exptime obs]"

text \<open>
  A report over the four images of the demonstration observation, with the comparison
  stars 2 and 0 chosen for its one aperture; the dates and times are those of the
  Julian dates of \<open>time\<close>, in microseconds since the first day of the year 1.
\<close>

definition demo_report :: report where
  "demo_report = observation.extend demo_obs
     (report.fields 0 [[2, 0]]
        [[[1, 1, 1, 1], [2, 2, 2, 2], [3, 3, 3, 3]]] [[[4, 4, 4, 4], [5, 5, 5, 5], [6, 6, 6, 6]]]
        ''bjd_tdb'' [7, 7, 7, 7] [8, 8, 8, 8] [0, 0, 0, 0] [0, 0, 0, 0] [3, 3, 3, 3] [1, 1, 1, 1]
        ''23:06:29'' ''-05:02:29'' [[5], [5], [5], [5]] ''Trappist-South'' ''I+z''
        [63726480000000000, 63726485400000000, 63726496200000000, 63726501600000000])"

section \<open>Metadata table (\<open>ObservationReport.__init__\<close>, reports/__init__.py lines 25-47)\<close>






record float_format =
  format_2f :: "nfloat \<Rightarrow> string"
  str_float :: "nfloat \<Rightarrow> string"
  round_2 :: "real \<Rightarrow> nfloat"

text \<open>The middle dot of the label and of the value, as its two bytes in UTF-8.\<close>

definition middle_dot :: string where
  "middle_dot = [CHR 0xC2, CHR 0xB7]"




section \<open>PDF report and PSF ellipticity (\<open>Observation.save_report\<close>, observation.py lines 397-533)\<close>

text \<open>
  The parameters of the plotting methods that \<^verbatim>\<open>save_report\<close> calls, from their
  \<^verbatim>\<open>def\<close> lines in observation.py (lines 166, 378, 347, 255 and 306), without
  \<^verbatim>\<open>self\<close>.
\<close>

definition parameters_of :: "string \<Rightarrow> string list" where
  "parameters_of method =
     (if method = ''show_stars'' then [''size'', ''flip'', ''view'', ''zoom'', ''n_stars'']
      else if method = ''plot_raw_diff'' then []
      else if method = ''plot_systematics'' then [''fields'', ''ylim'']
      else if method = ''plot_comps_lcs'' then [''n'', ''ylim'']
      else if method = ''plot_psf_fit'' then [''size'', ''cmap'', ''c'', ''model'']
      else [])"

text \<open>
  Binding the arguments of a call to the parameters of the method: Python raises
  TypeError, before the body runs, when there are more positional arguments than
  parameters, when a keyword is not a parameter, or when a keyword names a parameter
  that a positional argument has filled.
\<close>

definition quoted :: "string \<Rightarrow> string" where
  "quoted k = [CHR 0x27] @ k @ [CHR 0x27]"

definition bind_arguments :: "string \<Rightarrow> nat \<Rightarrow> string list \<Rightarrow> error option" where
  "bind_arguments method positional keywords =
     (let ps = parameters_of method
      in if length ps < positional
         then Some (TypeError (method @ ''() takes fewer positional arguments than were given''))
         else case filter (\<lambda>k. k \<notin> set ps) keywords of
                k # _ \<Rightarrow> Some (TypeError
                  (method @ ''() got an unexpected keyword argument '' @ quoted k))
              | [] \<Rightarrow>
                  (case filter (\<lambda>k. k \<in> set (take positional ps)) keywords of
                     k # _ \<Rightarrow> Some (TypeError
                       (method @ ''() got multiple values for argument '' @ quoted k))
                   | [] \<Rightarrow> None))"

text \<open>
  What \<^verbatim>\<open>save_report\<close> does, in the order it does it: a folder removed, the folder
  of the temporary figures made, a figure drawn by the named method and saved at a path,
  the page written at a path with the rows of its PSF table. The texts, the images and
  the first table of the page are not modelled.
\<close>

datatype pdf_action =
    Rmtree string
  | MkdirTemp string
  | Figure string string
  | PdfOutput string "(string \<times> string) list"

text \<open>
  The surroundings of a run: the answers of the file system, the folder of the temporary
  figures (\<^verbatim>\<open>path.join(path.dirname(destination), "temp")\<close>) and the path of the page
  for a destination, whether comparison stars are set, the parameters
  (\<^verbatim>\<open>theta\<close>, \<^verbatim>\<open>std_x\<close>, \<^verbatim>\<open>std_y\<close>) that \<^verbatim>\<open>plot_psf_fit\<close> returns, and the
  exception that the body of a step raises, if any.
\<close>

record pdf_surroundings =
  isdir :: "string \<Rightarrow> bool"
  exists_path :: "string \<Rightarrow> bool"
  temp_folder_of :: "string \<Rightarrow> string"
  pdf_path_of :: "string \<Rightarrow> string"
  has_comparison_stars :: bool
  psf_p :: "nfloat \<times> nfloat \<times> nfloat"
  body_fails :: "pdf_action \<Rightarrow> error option"

record pdf_run =
  performed :: "pdf_action list"
  raised_error :: "error option"

definition perform :: "pdf_surroundings \<Rightarrow> pdf_action \<Rightarrow> pdf_run \<Rightarrow> pdf_run" where
  "perform env a r =
     (if raised_error r \<noteq> None then r
      else case body_fails env a of
             Some e \<Rightarrow> r\<lparr>raised_error := Some e\<rparr>
           | None \<Rightarrow> r\<lparr>performed := performed r @ [a]\<rparr>)"

text \<open>
  A call of a plotting method followed by \<^verbatim>\<open>plt.savefig\<close>: the arguments are bound
  first.
\<close>

definition plot_call ::
  "pdf_surroundings \<Rightarrow> string \<Rightarrow> nat \<Rightarrow> string list \<Rightarrow> string \<Rightarrow> pdf_run \<Rightarrow> pdf_run" where
  "plot_call env method positional keywords file r =
     (if raised_error r \<noteq> None then r
      else case bind_arguments method positional keywords of
             Some e \<Rightarrow> r\<lparr>raised_error := Some e\<rparr>
           | None \<Rightarrow> perform env (Figure method file) r)"

text \<open>
  Lines 503-505, in float64: \<^verbatim>\<open>np.max\<close> and \<^verbatim>\<open>np.min\<close> of the two standard
  deviations, then \<^verbatim>\<open>(max_psf ** 2 - min_psf ** 2) / max_psf ** 2\<close>.
\<close>

definition ellipticity :: "numpy \<Rightarrow> nfloat \<Rightarrow> nfloat \<Rightarrow> nfloat" where
  "ellipticity np std_x std_y =
     (let max_psf = larger std_x std_y;
          min_psf = smaller std_x std_y
      in np_divide np (np_subtract np (np_square np max_psf) (np_square np min_psf))
           (np_square np max_psf))"

text \<open>The rows of the PSF table (lines 519-523).\<close>

definition fwhm_of :: "numpy \<Rightarrow> nfloat \<Rightarrow> nfloat" where
  "fwhm_of np s =
     np_multiply np
       (np_multiply np (Num 2) (np_sqrt np (np_multiply np (Num 2) (np_log np (Num 2))))) s"

definition psf_table :: "numpy \<Rightarrow> float_format \<Rightarrow> nfloat \<Rightarrow> nfloat \<Rightarrow> (string \<times> string) list" where
  "psf_table np fmt std_x std_y =
     [(''PSF std '' @ middle_dot @ '' fwhm (x)'',
         format_2f fmt std_x @ '' '' @ middle_dot @ '' '' @ format_2f fmt (fwhm_of np std_x)
         @ '' pixels''),
      (''PSF std '' @ middle_dot @ '' fwhm (y)'',
         format_2f fmt std_y @ '' '' @ middle_dot @ '' '' @ format_2f fmt (fwhm_of np std_y)
         @ '' pixels''),
      (''PSF ellipicity'', format_2f fmt (ellipticity np std_x std_y))]"

definition save_report ::
  "numpy \<Rightarrow> float_format \<Rightarrow> pdf_surroundings \<Rightarrow> string \<Rightarrow> bool \<Rightarrow> pdf_run" where
  "save_report np fmt env dest remove_temp =
     (let temp_folder = temp_folder_of env dest;
          r0 = \<lparr>performed = [], raised_error = None\<rparr>;
          r1 = (if isdir env ''temp'' then perform env (Rmtree temp_folder) r0 else r0);
          r2 = (if \<not> isdir env ''temp'' \<and> exists_path env temp_folder
                then perform env (Rmtree temp_folder) r1 else r1);
          r3 = perform env (MkdirTemp temp_folder) r2;
          r4 = plot_call env ''show_stars'' 1 [''view''] (temp_folder @ ''/starplot.png'') r3;
          r5 = plot_call env ''plot_raw_diff'' 0 [''std''] (temp_folder @ ''/lcreport.png'') r4;
          r6 = plot_call env ''plot_systematics'' 0 [''fields''] (temp_folder @ ''/systplot.png'') r5;
          r7 = (if has_comparison_stars env
                then plot_call env ''plot_comps_lcs'' 0 [] (temp_folder @ ''/lccompreport.png'') r6
                else r6);
          r8 = plot_call env ''plot_psf_fit'' 0 [] (temp_folder @ ''/psf_fit.png'') r7;
          (theta, std_x, std_y) = psf_p env;
          r9 = perform env (PdfOutput (pdf_path_of env dest) (psf_table np fmt std_x std_y)) r8
      in if isdir env ''temp'' \<and> remove_temp then perform env (Rmtree temp_folder) r9 else r9)"

text \<open>A run that has not written the page.\<close>

definition no_output :: "pdf_run \<Rightarrow> bool" where
  "no_output r = (\<forall>p rows. PdfOutput p rows \<notin> set (performed r))"

text \<open>
  A run in an empty working directory where no body fails, on a PSF whose fit gives
  standard deviations of 3 and 5 pixels.
\<close>

definition demo_pdf_surroundings :: pdf_surroundings where
  "demo_pdf_surroundings = \<lparr>isdir = (\<lambda>_. False), exists_path = (\<lambda>_. False),
     temp_folder_of = (\<lambda>_. ''temp''), pdf_path_of = (\<lambda>d. d @ ''.pdf''),
     has_comparison_stars = True, psf_p = (Num 0, Num 3, Num 5),
     body_fails = (\<lambda>_. None)\<rparr>"

section \<open>Report assembly (\<open>ObservationReport.make\<close>, reports/__init__.py lines 202-287)\<close>

text \<open>
  What \<^verbatim>\<open>make\<close> does to the file system, in the order it does it: a directory made,
  a figure drawn by the named method and saved at a path, the measurement table written,
  a file copied, the rendered template written.
\<close>

datatype action =
    Mkdir string
  | Savefig string string
  | ToCsv string data_frame
  | Copyfile string string
  | WriteTex string

text \<open>
  The surroundings of a run: which paths exist before it, the last component of the
  absolute path of a destination (\<^verbatim>\<open>path.split(path.abspath(destination))[-1]\<close>), the
  folder of the templates, and the exception that a step raises, if any. A step that
  raises ends the run: \<^verbatim>\<open>make\<close> catches nothing.
\<close>

record surroundings =
  path_exists :: "string \<Rightarrow> bool"
  report_name_of :: "string \<Rightarrow> string"
  template_folder :: string
  fails :: "action \<Rightarrow> error option"

record run =
  trace :: "action list"
  failure :: "error option"

definition step :: "surroundings \<Rightarrow> action \<Rightarrow> run \<Rightarrow> run" where
  "step env a r =
     (if failure r \<noteq> None then r
      else case fails env a of
             Some e \<Rightarrow> r\<lparr>failure := Some e\<rparr>
           | None \<Rightarrow> r\<lparr>trace := trace r @ [a]\<rparr>)"

text \<open>\<^verbatim>\<open>os.path.join\<close> of a path and a relative name.\<close>

definition path_join :: "string \<Rightarrow> string \<Rightarrow> string" where
  "path_join a b = (if a = [] then b else if last a = CHR ''/'' then a @ b else a @ ''/'' @ b)"

text \<open>The paths that \<^verbatim>\<open>make_report_folder\<close> stores in the report (lines 206-209).\<close>

record report_paths =
  destination :: string
  report_name :: string
  measurement_destination :: string
  figure_destination :: string

definition report_paths_of :: "surroundings \<Rightarrow> string \<Rightarrow> report_paths" where
  "report_paths_of env dest =
     \<lparr>destination = dest,
      report_name = report_name_of env dest,
      measurement_destination = path_join dest (report_name_of env dest @ ''.txt''),
      figure_destination = path_join dest ''figures''\<rparr>"

definition make_report_folder :: "surroundings \<Rightarrow> string \<Rightarrow> run \<Rightarrow> run" where
  "make_report_folder env dest r =
     (let r1 = (if \<not> path_exists env dest then step env (Mkdir dest) r else r);
          p = report_paths_of env dest
      in if \<not> path_exists env (figure_destination p)
         then step env (Mkdir (figure_destination p)) r1 else r1)"

text \<open>
  The truth value of \<^verbatim>\<open>t0\<close> in \<^verbatim>\<open>if t0 and duration is not None\<close> (line 232):
  \<^verbatim>\<open>None\<close> and zero are false.
\<close>

definition truthy :: "real option \<Rightarrow> bool" where
  "truthy v = (case v of None \<Rightarrow> False | Some x \<Rightarrow> x \<noteq> 0)"

definition make_figures :: "surroundings \<Rightarrow> string \<Rightarrow> real option \<Rightarrow> real option \<Rightarrow> run \<Rightarrow> run" where
  "make_figures env dest t0 duration r =
     (let r1 = step env (Savefig ''plot_psf'' (path_join dest ''psf.png'')) r;
          r2 = step env (Savefig ''plot_comps'' (path_join dest ''comparison.png'')) r1;
          r3 = step env (Savefig ''plot_raw'' (path_join dest ''raw.png'')) r2;
          r4 = step env (Savefig ''plot_syst'' (path_join dest ''systematics.png'')) r3;
          r5 = step env (Savefig ''plot_stars'' (path_join dest ''stars.png'')) r4;
          r6 = step env (Savefig ''plot_lc'' (path_join dest ''lightcurve.png'')) r5
      in if truthy t0 \<and> duration \<noteq> None
         then step env (Savefig ''plot_lc_model'' (path_join dest ''model.png'')) r6
         else r6)"

definition csv_step :: "surroundings \<Rightarrow> report \<Rightarrow> string \<Rightarrow> run \<Rightarrow> run" where
  "csv_step env obs dest r =
     (if failure r \<noteq> None then r
      else case to_csv_report obs of
             Inl e \<Rightarrow> r\<lparr>failure := Some e\<rparr>
           | Inr df \<Rightarrow> step env (ToCsv dest df) r)"

definition make :: "surroundings \<Rightarrow> report \<Rightarrow> string \<Rightarrow> real option \<Rightarrow> real option \<Rightarrow> run" where
  "make env obs dest t0 duration =
     (let p = report_paths_of env dest;
          r1 = make_report_folder env dest \<lparr>trace = [], failure = None\<rparr>;
          r2 = make_figures env (figure_destination p) t0 duration r1;
          r3 = csv_step env obs (measurement_destination p) r2;
          r4 = step env (Copyfile (path_join (template_folder env) ''prose-report.cls'')
                                  (path_join dest ''prose-report.cls'')) r3;
          tex_destination = path_join (destination p) (report_name p @ ''.tex'')
      in step env (WriteTex tex_destination) r4)"

text \<open>A run in an empty working directory where no step fails.\<close>

definition demo_surroundings :: surroundings where
  "demo_surroundings = \<lparr>path_exists = (\<lambda>_. False), report_name_of = (\<lambda>d. d),
     template_folder = ''latex'', fails = (\<lambda>_. None)\<rparr>"

section \<open>Properties of the upload adapter\<close>

lemma description_of_empty: "description_of f = [] \<longleftrightarrow> \<not> recognized f"
  by (simp add: description_of_def recognized_def known_suffixes_def)

lemma uploaded_simps [simp]:
  "uploaded u (print l s) f = uploaded u s f"
  "uploaded u (print_files p s) f = uploaded u s f"
  "uploaded u (raise s) f = uploaded u s f"
  "uploaded u (sent r s) f = (uploaded u s f \<or> carries_file u f r)"
  "\<not> uploaded u \<lparr>posts = [], printed = ls, raised = b\<rparr> f"
  by (auto simp: uploaded_def print_def print_files_def raise_def sent_def)

lemma raised_simps [simp]:
  "raised (print l s) = raised s"
  "raised (print_files p s) = raised s"
  "raised (raise s) = True"
  "raised (sent r s) = raised s"
  by (simp_all add: print_def print_files_def raise_def sent_def)

lemma logged_simps [simp]:
  "logged_not_uploaded (print l s) f = (l = ''******NOT UPLOADED: '' @ f \<or> logged_not_uploaded s f)"
  "logged_not_uploaded (print_files p s) f = logged_not_uploaded s f"
  "logged_not_uploaded (raise s) f = logged_not_uploaded s f"
  "logged_not_uploaded (sent r s) f = logged_not_uploaded s f"
  by (auto simp: logged_not_uploaded_def print_def print_files_def raise_def sent_def)

lemma upload_one_uploaded:
  "uploaded u (upload_one env u g s) f \<Longrightarrow>
     uploaded u s f \<or> (f = g \<and> is_file env f \<and> tic_prefixed f \<and> recognized f)"
  by (auto simp: upload_one_def Let_def tic_prefixed_def description_of_empty
           split: if_splits outcome.splits)

lemma upload_files_uploaded:
  "uploaded u (upload_files env u fs s) f \<Longrightarrow>
     uploaded u s f \<or> (f \<in> set fs \<and> is_file env f \<and> tic_prefixed f \<and> recognized f)"
proof (induction fs arbitrary: s)
  case Nil
  then show ?case by simp
next
  case (Cons g fs)
  show ?case
  proof (cases "raised (upload_one env u g s)")
    case True
    with Cons.prems have "uploaded u (upload_one env u g s) f" by (simp add: Let_def)
    from upload_one_uploaded[OF this] show ?thesis by auto
  next
    case False
    with Cons.prems have "uploaded u (upload_files env u fs (upload_one env u g s)) f"
      by (simp add: Let_def)
    from Cons.IH[OF this] upload_one_uploaded[of u env g s f] show ?thesis by auto
  qed
qed

lemma upload_one_logged_mono:
  "logged_not_uploaded s f \<Longrightarrow> logged_not_uploaded (upload_one env u g s) f"
  by (simp add: upload_one_def Let_def split: outcome.splits)

lemma upload_one_logs:
  "\<not> raised (upload_one env u f s) \<Longrightarrow> \<not> (is_file env f \<and> tic_prefixed f \<and> recognized f) \<Longrightarrow>
     logged_not_uploaded (upload_one env u f s) f"
  by (auto simp: upload_one_def Let_def tic_prefixed_def description_of_empty[symmetric]
           split: if_splits outcome.splits)

lemma upload_files_logged_mono:
  "logged_not_uploaded s f \<Longrightarrow> logged_not_uploaded (upload_files env u fs s) f"
  by (induction fs arbitrary: s) (auto simp: Let_def upload_one_logged_mono)

lemma upload_files_logs:
  "\<not> raised (upload_files env u fs s) \<Longrightarrow> f \<in> set fs \<Longrightarrow>
   \<not> (is_file env f \<and> tic_prefixed f \<and> recognized f) \<Longrightarrow>
     logged_not_uploaded (upload_files env u fs s) f"
proof (induction fs arbitrary: s)
  case Nil
  then show ?case by simp
next
  case (Cons g fs)
  have nr: "\<not> raised (upload_one env u g s)"
    using Cons.prems(1) by (auto simp: Let_def split: if_splits)
  then have rest: "upload_files env u (g # fs) s = upload_files env u fs (upload_one env u g s)"
    by (simp add: Let_def)
  show ?case
  proof (cases "f = g")
    case True
    then have "logged_not_uploaded (upload_one env u g s) f"
      using upload_one_logs nr Cons.prems(3) by blast
    then show ?thesis unfolding rest by (rule upload_files_logged_mono)
  next
    case False
    then have "f \<in> set fs" using Cons.prems(2) by simp
    then show ?thesis
      unfolding rest using Cons.IH Cons.prems(1,3) rest by metis
  qed
qed

lemma upload_uploaded:
  "uploaded u (upload env u) f \<Longrightarrow>
     figures_is_dir env \<and> \<not> skip_file_upload u \<and> f \<in> set (fileList u)
     \<and> is_file env f \<and> tic_prefixed f \<and> recognized f"
proof -
  assume a: "uploaded u (upload env u) f"
  define s0 where "s0 = \<lparr>posts = [], printed = [], raised = False\<rparr>"
  have l: "\<not> uploaded u (login env u s0) f"
    by (simp add: login_def Let_def s0_def split: outcome.splits)
  have su: "\<not> uploaded u (summary_upload env u (login env u s0)) f"
    using l by (simp add: summary_upload_def Let_def split: outcome.splits)
  have s0n: "\<not> uploaded u s0 f" by (simp add: s0_def)
  from a l su s0n have d: "figures_is_dir env" and k: "\<not> skip_file_upload u"
    and up: "uploaded u (upload_files env u (fileList u) (summary_upload env u (login env u s0))) f"
    by (auto simp: upload_def Let_def s0_def[symmetric] file_upload_def
             split: if_splits)
  from upload_files_uploaded[OF up] su d k show ?thesis by simp
qed

lemma upload_logs:
  assumes "figures_is_dir env" "\<not> skip_file_upload u" "\<not> raised (upload env u)"
    and "f \<in> set (fileList u)" "\<not> (is_file env f \<and> tic_prefixed f \<and> recognized f)"
  shows "logged_not_uploaded (upload env u) f"
proof -
  define s2 where
    "s2 = summary_upload env u (login env u \<lparr>posts = [], printed = [], raised = False\<rparr>)"
  have "upload env u = upload_files env u (fileList u) s2"
    using assms(1,2,3)
    by (auto simp: upload_def Let_def file_upload_def s2_def split: if_splits)
  then show ?thesis using upload_files_logs assms(3,4,5) by metis
qed

text \<open>
  Claim C6. A file whose name ends with none of the recognized suffixes is never the
  file of a submission request, whatever the file system and the server answer; and
  when the file loop runs to its end (the figures directory exists, file upload is not
  skipped, no call raised), each such file of the list is logged as not uploaded. A
  name that has a recognized suffix in the middle only, such as
  \<open>TIC261136679_stars.png.bak\<close>, is such a file.
\<close>

theorem unrecognized_suffix_not_uploaded:
  assumes "\<not> recognized fileName"
  shows "\<not> uploaded u (upload env u) fileName
       \<and> (figures_is_dir env \<and> \<not> skip_file_upload u \<and> \<not> raised (upload env u)
            \<and> fileName \<in> set (fileList u)
          \<longrightarrow> logged_not_uploaded (upload env u) fileName)"
  using assms upload_uploaded[of u env fileName] upload_logs[of env u fileName] by blast

theorem unrecognized_suffix_not_uploaded_witness:
  "\<not> recognized ''TIC261136679_stars.png.bak''
   \<and> \<not> uploaded demo_uploader (upload demo_env demo_uploader) ''TIC261136679_stars.png.bak''
   \<and> logged_not_uploaded (upload demo_env demo_uploader) ''TIC261136679_stars.png.bak''
   \<and> uploaded demo_uploader (upload demo_env demo_uploader) ''TIC261136679_stars.png''"
proof -
  have r: "\<not> recognized ''TIC261136679_stars.png.bak''" by code_simp
  have d: "figures_is_dir demo_env" "\<not> skip_file_upload demo_uploader"
    by (simp_all add: demo_env_def demo_uploader_def)
  have n: "\<not> raised (upload demo_env demo_uploader)" by code_simp
  have m: "''TIC261136679_stars.png.bak'' \<in> set (fileList demo_uploader)"
    by (simp add: demo_uploader_def)
  have p: "uploaded demo_uploader (upload demo_env demo_uploader) ''TIC261136679_stars.png''"
    by code_simp
  show ?thesis
    using unrecognized_suffix_not_uploaded[OF r, of demo_uploader demo_env] r d n m p by blast
qed

text \<open>
  Claim C10. A file whose name does not start with \<open>TIC\<close>, or starts with \<open>TIC\<close>
  followed by a space, is never the file of a submission request, also when its name
  ends with a recognized suffix; when the file loop runs to its end, each such file of
  the list is logged as not uploaded.
\<close>

theorem tic_prefix_required:
  assumes "\<not> startswith fileName ''TIC'' \<or> startswith fileName ''TIC ''"
  shows "\<not> uploaded u (upload env u) fileName
       \<and> (figures_is_dir env \<and> \<not> skip_file_upload u \<and> \<not> raised (upload env u)
            \<and> fileName \<in> set (fileList u)
          \<longrightarrow> logged_not_uploaded (upload env u) fileName)"
proof -
  have "\<not> tic_prefixed fileName" using assms by (auto simp: tic_prefixed_def)
  then show ?thesis
    using upload_uploaded[of u env fileName] upload_logs[of env u fileName] by blast
qed

theorem tic_prefix_required_witness:
  "\<not> startswith ''stars.png'' ''TIC'' \<and> recognized ''stars.png''
   \<and> \<not> uploaded demo_uploader (upload demo_env demo_uploader) ''stars.png''
   \<and> logged_not_uploaded (upload demo_env demo_uploader) ''stars.png''
   \<and> startswith ''TIC 261136679_lightcurve.png'' ''TIC ''
   \<and> recognized ''TIC 261136679_lightcurve.png''
   \<and> \<not> uploaded demo_uploader (upload demo_env demo_uploader) ''TIC 261136679_lightcurve.png''
   \<and> logged_not_uploaded (upload demo_env demo_uploader) ''TIC 261136679_lightcurve.png''"
proof -
  have a: "\<not> startswith ''stars.png'' ''TIC''" "recognized ''stars.png''" by code_simp+
  have b: "startswith ''TIC 261136679_lightcurve.png'' ''TIC ''"
    "recognized ''TIC 261136679_lightcurve.png''" by code_simp+
  have d: "figures_is_dir demo_env" "\<not> skip_file_upload demo_uploader"
    by (simp_all add: demo_env_def demo_uploader_def)
  have n: "\<not> raised (upload demo_env demo_uploader)" by code_simp
  have m: "''stars.png'' \<in> set (fileList demo_uploader)"
    "''TIC 261136679_lightcurve.png'' \<in> set (fileList demo_uploader)"
    by (simp_all add: demo_uploader_def)
  show ?thesis
    using tic_prefix_required[of "''stars.png''" demo_uploader demo_env]
      tic_prefix_required[of "''TIC 261136679_lightcurve.png''" demo_uploader demo_env]
      a b d n m by blast
qed

section \<open>Properties of the precision estimator\<close>

lemma zip_as_map:
  "length bs = length xs \<Longrightarrow> zip xs bs = map (\<lambda>i. (xs ! i, bs ! i)) [0..<length xs]"
  by (rule nth_equalityI) simp_all

lemma mask_as_map:
  assumes "length bs = length xs"
  shows "mask xs bs = map (\<lambda>i. xs ! i) (filter (\<lambda>i. bs ! i) [0..<length xs])"
  by (simp add: mask_def zip_as_map[OF assms] filter_map comp_def)

lemma positive_stars_props:
  "distinct (positive_stars np F es)" "set (positive_stars np F es) \<subseteq> {..<length F}"
  "length (positive_stars np F es) \<le> length F"
  "j \<in> set (positive_stars np F es) \<longleftrightarrow> j < length F \<and> greater_zero (inv_snr np F es j)"
     apply (auto simp: positive_stars_def)
  using length_filter_le[of _ "[0..<length F]"] by (metis length_upt minus_nat.diff_0)

lemma argsort_props:
  "distinct (argsort xs)" "set (argsort xs) = {..<length xs}" "length (argsort xs) = length xs"
  "sorted (map (\<lambda>i. sort_rank (xs ! i)) (argsort xs))"
  by (auto simp: argsort_def)

lemma stars_by_flux_props:
  "distinct (stars_by_flux np F es)"
  "set (stars_by_flux np F es) = set (positive_stars np F es)"
  "length (stars_by_flux np F es) = length (positive_stars np F es)"
  "ascending (map (\<lambda>j. F ! j) (stars_by_flux np F es))"
proof -
  define kept where "kept = positive_stars np F es"
  define idx where "idx = argsort (map (\<lambda>j. F ! j) kept)"
  have sb: "stars_by_flux np F es = map (\<lambda>i. kept ! i) idx"
    by (simp add: stars_by_flux_def kept_def idx_def Let_def)
  have dk: "distinct kept" by (simp add: kept_def positive_stars_props)
  have si: "set idx = {..<length kept}" and di: "distinct idx"
    and li: "length idx = length kept"
    by (simp_all add: idx_def argsort_props)
  have "inj_on (\<lambda>i. kept ! i) (set idx)"
    using dk si by (auto simp: inj_on_def nth_eq_iff_index_eq)
  then show "distinct (stars_by_flux np F es)" using di by (simp add: sb distinct_map)
  have "set (map (\<lambda>i. kept ! i) idx) = (\<lambda>i. kept ! i) ` {0..<length kept}"
    using si by (simp add: atLeast0LessThan)
  also have "\<dots> = set kept" using nth_image[of "length kept" kept] by simp
  finally show "set (stars_by_flux np F es) = set (positive_stars np F es)"
    by (simp add: sb kept_def)
  show "length (stars_by_flux np F es) = length (positive_stars np F es)"
    by (simp add: sb li kept_def)
  have "map sort_rank (map (\<lambda>j. F ! j) (stars_by_flux np F es))
        = map (\<lambda>i. sort_rank (map (\<lambda>j. F ! j) kept ! i)) idx"
    using si by (auto simp: sb)
  then show "ascending (map (\<lambda>j. F ! j) (stars_by_flux np F es))"
    unfolding ascending_def by (simp add: idx_def argsort_props(4))
qed

lemma plot_series_char:
  assumes le: "length E = length F" and ls: "length es = length F"
    and kept: "kept = positive_stars np F es" and js: "js = stars_by_flux np F es"
  shows "plot_series np F E es S A =
    (case y_limits np (map (inv_snr np F es) kept) of
       Inl e \<Rightarrow> Inl e
     | Inr yl \<Rightarrow>
    (case x_limits np (map (\<lambda>j. F ! j) kept) of
       Inl e \<Rightarrow> Inl e
     | Inr xl \<Rightarrow>
       Inr \<lparr>rms_x = map (\<lambda>j. np_log np (F ! j)) kept,
            rms_y = map (inv_snr np F es) kept,
            photon_x = map (\<lambda>j. np_log np (F ! j)) js,
            photon_y = map (\<lambda>j. np_divide np (np_sqrt np (F ! j)) (F ! j)) js,
            background_x = map (\<lambda>j. np_log np (F ! j)) js,
            background_y = map (\<lambda>j. np_divide np (np_sqrt np (np_multiply np S (Num A))) (F ! j)) js,
            ccd_x = map (\<lambda>j. np_log np (F ! j)) js,
            ccd_y = map (\<lambda>j. np_divide np (E ! j) (F ! j)) js,
            ylim = yl, xlim = xl\<rparr>))"
proof -
  define inv0 where "inv0 = map2 (np_divide np) es F"
  define pos where "pos = map greater_zero inv0"
  have lp: "length pos = length F" by (simp add: pos_def inv0_def ls)
  have pj: "pos ! j = greater_zero (inv_snr np F es j)" if "j < length F" for j
    using that ls by (simp add: pos_def inv0_def inv_snr_def)
  have fk: "filter (\<lambda>i. pos ! i) [0..<length F] = kept"
    unfolding kept positive_stars_def by (rule filter_cong) (simp_all add: pj)
  have kl: "j < length F" if "j \<in> set kept" for j
    using that positive_stars_props(2)[where np=np and F=F and es=es] by (auto simp: kept)
  have mF: "mask F pos = map (\<lambda>j. F ! j) kept"
    using mask_as_map[of pos F] lp fk by simp
  have mI: "mask inv0 pos = map (inv_snr np F es) kept"
  proof -
    have "mask inv0 pos = map (\<lambda>i. inv0 ! i) kept"
      using mask_as_map[of pos inv0] lp fk by (simp add: inv0_def ls)
    also have "\<dots> = map (inv_snr np F es) kept"
      using kl ls by (intro map_cong) (simp_all add: inv0_def inv_snr_def)
    finally show ?thesis .
  qed
  have mC: "mask (map2 (np_divide np) E F) pos = map (\<lambda>j. np_divide np (E ! j) (F ! j)) kept"
  proof -
    have "mask (map2 (np_divide np) E F) pos = map (\<lambda>i. map2 (np_divide np) E F ! i) kept"
      using mask_as_map[of pos "map2 (np_divide np) E F"] lp fk by (simp add: le)
    also have "\<dots> = map (\<lambda>j. np_divide np (E ! j) (F ! j)) kept"
      using kl le by (intro map_cong) simp_all
    finally show ?thesis .
  qed
  define idx where "idx = argsort (map (\<lambda>j. F ! j) kept)"
  have sb: "js = map (\<lambda>i. kept ! i) idx"
    by (simp add: js stars_by_flux_def kept idx_def Let_def)
  have il: "i < length kept" if "i \<in> set idx" for i
    using that by (simp add: idx_def argsort_props(2))
  have tk: "take_idxs (map g kept) idx = map g js" for g :: "nat \<Rightarrow> nfloat"
    using il by (simp add: take_idxs_def sb)
  have t1: "take_idxs (map (np_log np) (map (\<lambda>j. F ! j) kept)) idx = map (\<lambda>j. np_log np (F ! j)) js"
    using tk[of "\<lambda>j. np_log np (F ! j)"] by (simp add: comp_def)
  have t2: "take_idxs (map (\<lambda>f. np_divide np (np_sqrt np f) f) (map (\<lambda>j. F ! j) kept)) idx
            = map (\<lambda>j. np_divide np (np_sqrt np (F ! j)) (F ! j)) js"
    using tk[of "\<lambda>j. np_divide np (np_sqrt np (F ! j)) (F ! j)"] by (simp add: comp_def)
  have t3: "take_idxs (map (\<lambda>f. np_divide np B f) (map (\<lambda>j. F ! j) kept)) idx
            = map (\<lambda>j. np_divide np B (F ! j)) js" for B
    using tk[of "\<lambda>j. np_divide np B (F ! j)"] by (simp add: comp_def)
  have t4: "take_idxs (map (\<lambda>j. np_divide np (E ! j) (F ! j)) kept) idx
            = map (\<lambda>j. np_divide np (E ! j) (F ! j)) js"
    by (rule tk)
  have r1: "map (np_log np) (map (\<lambda>j. F ! j) kept) = map (\<lambda>j. np_log np (F ! j)) kept" by simp
  show ?thesis
    unfolding plot_series_def Let_def inv0_def[symmetric] pos_def[symmetric] mF mI mC
      idx_def[symmetric] r1 t1[unfolded r1] t2 t3 t4
    by (rule refl)
qed

lemma y_limits_nonempty: "y_limits np xs = Inr yl \<Longrightarrow> xs \<noteq> []"
  by (auto simp: y_limits_def)

lemma set_limits_finite: "set_limits lo hi = Inr l \<Longrightarrow> l = (lo, hi) \<and> is_finite lo \<and> is_finite hi"
  by (auto simp: set_limits_def split: if_splits)

lemma error_estimates_length:
  "error_estimates np t n fl = Inr es \<Longrightarrow> length es = length fl"
  by (induction fl arbitrary: es) (auto split: sum.splits)

lemma error_estimates_nth:
  "error_estimates np t n fl = Inr es \<Longrightarrow> j < length fl \<Longrightarrow>
     binned_std_median np t (fl ! j) n = Inr (es ! j)"
proof (induction fl arbitrary: es j)
  case Nil
  then show ?case by simp
next
  case (Cons f fl)
  then show ?case by (cases j) (auto split: sum.splits)
qed

lemma plot_precision_stages:
  assumes "select_aperture obs ap = Inr a"
    and "bin_count np obs bins = Inr n" and "n < int (length (time obs))"
    and "as_array obs a = Inr (fl, er)"
    and "error_estimates np (time obs) n fl = Inr es"
    and "aperture_area obs a = Inr A"
  shows "plot_precision np obs bins ap =
           plot_series np (map (np_mean np) fl) (map (np_mean np) er) es (np_mean np (sky obs)) A"
  using assms by (simp add: plot_precision_def assert_that_def precision_curves_def)

lemma plot_precision_char:
  assumes "select_aperture obs ap = Inr a"
    and "bin_count np obs bins = Inr n" and "n < int (length (time obs))"
    and "as_array obs a = Inr (fl, er)" and "length er = length fl"
    and "error_estimates np (time obs) n fl = Inr es"
    and "aperture_area obs a = Inr A"
    and "plot_precision np obs bins ap = Inr fig"
    and "kept = positive_stars np (map (np_mean np) fl) es"
    and "js = stars_by_flux np (map (np_mean np) fl) es"
  shows "kept \<noteq> []"
    and "rms_x fig = map (\<lambda>j. np_log np (np_mean np (fl ! j))) kept"
    and "rms_y fig = map (\<lambda>j. np_divide np (es ! j) (np_mean np (fl ! j))) kept"
    and "photon_x fig = map (\<lambda>j. np_log np (np_mean np (fl ! j))) js"
    and "photon_y fig = map (\<lambda>j. np_divide np (np_sqrt np (np_mean np (fl ! j)))
                                  (np_mean np (fl ! j))) js"
    and "background_x fig = map (\<lambda>j. np_log np (np_mean np (fl ! j))) js"
    and "background_y fig =
           map (\<lambda>j. np_divide np (np_sqrt np (np_multiply np (np_mean np (sky obs)) (Num A)))
                       (np_mean np (fl ! j))) js"
    and "ccd_x fig = map (\<lambda>j. np_log np (np_mean np (fl ! j))) js"
    and "ccd_y fig = map (\<lambda>j. np_divide np (np_mean np (er ! j)) (np_mean np (fl ! j))) js"
proof -
  define F where "F = map (np_mean np) fl"
  define E where "E = map (np_mean np) er"
  have le: "length E = length F" by (simp add: E_def F_def assms(5))
  have ls: "length es = length F" using error_estimates_length[OF assms(6)] by (simp add: F_def)
  have kept: "kept = positive_stars np F es" and js: "js = stars_by_flux np F es"
    by (simp_all add: assms(9,10) F_def)
  have kb: "j < length fl" if "j \<in> set kept" for j
    using that positive_stars_props(2)[where np=np and F=F and es=es] by (auto simp: F_def kept)
  have sb: "j < length fl" if "j \<in> set js" for j
    using that kb by (simp add: js kept stars_by_flux_props(2))
  have m1: "map (\<lambda>j. g (F ! j)) kept = map (\<lambda>j. g (np_mean np (fl ! j))) kept"
    for g :: "nfloat \<Rightarrow> nfloat"
    using kb by (intro map_cong) (simp_all add: F_def)
  have m2: "map (\<lambda>j. g (F ! j)) js = map (\<lambda>j. g (np_mean np (fl ! j))) js"
    for g :: "nfloat \<Rightarrow> nfloat"
    using sb by (intro map_cong) (simp_all add: F_def)
  have m3: "map (\<lambda>j. np_divide np (E ! j) (F ! j)) js
            = map (\<lambda>j. np_divide np (np_mean np (er ! j)) (np_mean np (fl ! j))) js"
    using sb assms(5) by (intro map_cong) (simp_all add: F_def E_def)
  have m4: "map (inv_snr np F es) kept = map (\<lambda>j. np_divide np (es ! j) (np_mean np (fl ! j))) kept"
    using kb by (intro map_cong) (simp_all add: F_def inv_snr_def)
  have run: "plot_series np F E es (np_mean np (sky obs)) A = Inr fig"
    using plot_precision_stages[OF assms(1,2,3,4,6,7)] assms(8) by (simp add: F_def E_def)
  note ch = plot_series_char[OF le ls kept js, of "np_mean np (sky obs)" A]
  from run obtain yl xl where
    yl: "y_limits np (map (inv_snr np F es) kept) = Inr yl"
    and xl: "x_limits np (map (\<lambda>j. F ! j) kept) = Inr xl"
    unfolding ch by (auto split: sum.splits)
  from y_limits_nonempty[OF yl] show "kept \<noteq> []" by simp
  have fig: "fig = \<lparr>rms_x = map (\<lambda>j. np_log np (F ! j)) kept,
            rms_y = map (inv_snr np F es) kept,
            photon_x = map (\<lambda>j. np_log np (F ! j)) js,
            photon_y = map (\<lambda>j. np_divide np (np_sqrt np (F ! j)) (F ! j)) js,
            background_x = map (\<lambda>j. np_log np (F ! j)) js,
            background_y = map (\<lambda>j. np_divide np (np_sqrt np (np_multiply np (np_mean np (sky obs)) (Num A))) (F ! j)) js,
            ccd_x = map (\<lambda>j. np_log np (F ! j)) js,
            ccd_y = map (\<lambda>j. np_divide np (E ! j) (F ! j)) js,
            ylim = yl, xlim = xl\<rparr>"
    using run unfolding ch yl xl by simp
  show "rms_x fig = map (\<lambda>j. np_log np (np_mean np (fl ! j))) kept"
    by (simp add: fig m1[of "np_log np"])
  show "rms_y fig = map (\<lambda>j. np_divide np (es ! j) (np_mean np (fl ! j))) kept"
    by (simp add: fig m4)
  show "photon_x fig = map (\<lambda>j. np_log np (np_mean np (fl ! j))) js"
    by (simp add: fig m2[of "np_log np"])
  show "photon_y fig = map (\<lambda>j. np_divide np (np_sqrt np (np_mean np (fl ! j)))
                                  (np_mean np (fl ! j))) js"
    by (simp add: fig m2[of "\<lambda>f. np_divide np (np_sqrt np f) f"])
  show "background_x fig = map (\<lambda>j. np_log np (np_mean np (fl ! j))) js"
    by (simp add: fig m2[of "np_log np"])
  show "background_y fig =
           map (\<lambda>j. np_divide np (np_sqrt np (np_multiply np (np_mean np (sky obs)) (Num A)))
                       (np_mean np (fl ! j))) js"
    by (simp add: fig m2[of "\<lambda>f. np_divide np (np_sqrt np (np_multiply np (np_mean np (sky obs)) (Num A))) f"])
  show "ccd_x fig = map (\<lambda>j. np_log np (np_mean np (fl ! j))) js"
    by (simp add: fig m2[of "np_log np"])
  show "ccd_y fig = map (\<lambda>j. np_divide np (np_mean np (er ! j)) (np_mean np (fl ! j))) js"
    by (simp add: fig m3)
qed

lemma demo_select: "select_aperture demo_obs None = Inr 0"
  by (simp add: select_aperture_def demo_obs_def)

lemma demo_bins: "bin_count exact_np demo_obs (1 / 8) = Inr 2"
  by (simp add: bin_count_def exact_np_def exact_mean_def demo_obs_def int_of_float_def)

lemma demo_samples: "2 < int (length (time demo_obs))"
  by (simp add: demo_obs_def)

lemma demo_arrays:
  "as_array demo_obs 0 = Inr ([[3, 5, 3, 5], [1 / 2, 3 / 2, 1 / 2, 3 / 2], [9, 9, 9, 9]],
                              [[2, 2, 2, 2], [1, 1, 1, 1], [3, 3, 3, 3]])"
  by (simp add: as_array_def getitem_def demo_obs_def)

lemma upt_2: "[0..<2] = [0, Suc 0]"
  by (simp add: upt_rec numeral_2_eq_2)

lemma demo_statistic:
  "exact_binned_std_median (time demo_obs) [a, b, c, d] 2
     = Inr (exact_median [exact_std [a, b], exact_std [c, d]])"
  by (simp add: exact_binned_std_median_def bin_index_def Let_def upt_2 demo_obs_def)

lemma demo_estimates:
  "error_estimates exact_np (time demo_obs) 2
     [[3, 5, 3, 5], [1 / 2, 3 / 2, 1 / 2, 3 / 2], [9, 9, 9, 9]]
     = Inr [Num 1, Num (1 / 2), Num 0]"
  by (simp add: exact_np_def demo_statistic
      exact_std_def exact_median_def power2_eq_square real_sqrt_divide)

lemma demo_area: "aperture_area demo_obs 0 = Inr 4"
  by (simp add: aperture_area_def getitem_def demo_obs_def)

lemma demo_kept:
  "positive_stars exact_np
     (map (np_mean exact_np) [[3, 5, 3, 5], [1 / 2, 3 / 2, 1 / 2, 3 / 2], [9, 9, 9, 9]])
     [Num 1, Num (1 / 2), Num 0] = [0, Suc 0]"
  by (simp add: positive_stars_def inv_snr_def exact_np_def exact_mean_def upt_rec numeral_3_eq_3)

lemma demo_order:
  "stars_by_flux exact_np
     (map (np_mean exact_np) [[3, 5, 3, 5], [1 / 2, 3 / 2, 1 / 2, 3 / 2], [9, 9, 9, 9]])
     [Num 1, Num (1 / 2), Num 0] = [Suc 0, 0]"
  unfolding stars_by_flux_def demo_kept Let_def
  by (simp add: argsort_def exact_np_def exact_mean_def upt_2)

lemma demo_y_limits:
  "y_limits exact_np [Num (1 / 4), Num (1 / 2)] = Inr (Num (51 / 400), Num (297 / 400))"
  by (simp add: y_limits_def set_limits_def exact_np_def exact_percentile_def Let_def)

lemma demo_x_limits:
  "x_limits exact_np [Num 4, Num 1] = Inr (Num 0, Num (ln 4))"
  by (simp add: x_limits_def np_min_def np_max_def smaller_def larger_def set_limits_def
      exact_np_def)

lemma demo_figure:
  "plot_precision exact_np demo_obs (1 / 8) None = Inr
     \<lparr>rms_x = [Num (ln 4), Num 0], rms_y = [Num (1 / 4), Num (1 / 2)],
      photon_x = [Num 0, Num (ln 4)], photon_y = [Num 1, Num (1 / 2)],
      background_x = [Num 0, Num (ln 4)], background_y = [Num 2, Num (1 / 2)],
      ccd_x = [Num 0, Num (ln 4)], ccd_y = [Num 1, Num (1 / 2)],
      ylim = (Num (51 / 400), Num (297 / 400)), xlim = (Num 0, Num (ln 4))\<rparr>"
proof -
  define F where "F = map (np_mean exact_np) [[3, 5, 3, 5], [1 / 2, 3 / 2, 1 / 2, 3 / 2], [9, 9, 9, 9]]"
  define E where "E = map (np_mean exact_np) [[2, 2, 2, 2], [1, 1, 1, 1], [3, 3, 3, 3::real]]"
  define es where "es = [Num 1, Num (1 / 2), Num 0]"
  have Fv: "F = [Num 4, Num 1, Num 9]" and Ev: "E = [Num 2, Num 1, Num 3]"
    by (simp_all add: F_def E_def exact_np_def exact_mean_def)
  have le: "length E = length F" and ls: "length es = length F"
    by (simp_all add: Fv Ev es_def)
  have kept: "[0, Suc 0] = positive_stars exact_np F es"
    and js: "[Suc 0, 0] = stars_by_flux exact_np F es"
    by (simp_all only: F_def es_def demo_kept demo_order)
  have S: "np_mean exact_np (sky demo_obs) = Num 1"
    by (simp add: demo_obs_def exact_np_def exact_mean_def)
  have run: "plot_precision exact_np demo_obs (1 / 8) None = plot_series exact_np F E es (Num 1) 4"
    using plot_precision_stages[OF demo_select demo_bins demo_samples demo_arrays
        demo_estimates demo_area]
    by (simp add: F_def E_def es_def S)
  have yl: "y_limits exact_np (map (inv_snr exact_np F es) [0, Suc 0])
            = Inr (Num (51 / 400), Num (297 / 400))"
    using demo_y_limits by (simp add: inv_snr_def Fv es_def exact_np_def)
  have xl: "x_limits exact_np (map (\<lambda>j. F ! j) [0, Suc 0]) = Inr (Num 0, Num (ln 4))"
    using demo_x_limits by (simp add: Fv)
  show ?thesis
    unfolding run plot_series_char[OF le ls kept js] yl xl
    by (simp add: Fv Ev es_def inv_snr_def exact_np_def)
qed

text \<open>
  Claim C8. Called without an aperture on an observation that has no light curve, the
  estimator fails with the assertion error of line 537 at the choice of the aperture,
  whatever the arithmetic and the other data are. When a light curve exists, the
  aperture chosen is the light curve's best aperture id, the call is the call with that
  aperture, and once the bin count passes its check the estimator goes on to the curves
  of that aperture.
\<close>

theorem aperture_precondition:
  "(lcs obs = None \<longrightarrow>
      select_aperture obs None = Inl (AssertionError
        ''You must set 'aperture' kwargs (light-curve not present to pick best aperture id)'')
      \<and> plot_precision np obs bins None = Inl (AssertionError
        ''You must set 'aperture' kwargs (light-curve not present to pick best aperture id)''))
   \<and> (\<forall>lc. lcs obs = Some lc \<longrightarrow>
        select_aperture obs None = Inr (best_aperture_id lc)
        \<and> plot_precision np obs bins None = plot_precision np obs bins (Some (best_aperture_id lc))
        \<and> (\<forall>n. bin_count np obs bins = Inr n \<and> n < int (length (time obs)) \<longrightarrow>
               plot_precision np obs bins None = precision_curves np obs (best_aperture_id lc) n))"
  by (simp add: plot_precision_def select_aperture_def assert_that_def)

theorem aperture_precondition_witness:
  "lcs (demo_obs\<lparr>lcs := None\<rparr>) = None
   \<and> plot_precision exact_np (demo_obs\<lparr>lcs := None\<rparr>) (1 / 8) None = Inl (AssertionError
        ''You must set 'aperture' kwargs (light-curve not present to pick best aperture id)'')
   \<and> lcs demo_obs = Some \<lparr>best_aperture_id = 0\<rparr>
   \<and> select_aperture demo_obs None = Inr 0
   \<and> bin_count exact_np demo_obs (1 / 8) = Inr 2 \<and> 2 < int (length (time demo_obs))
   \<and> plot_precision exact_np demo_obs (1 / 8) None = precision_curves exact_np demo_obs 0 2
   \<and> \<not> isl (plot_precision exact_np demo_obs (1 / 8) None)"
proof -
  have n: "lcs (demo_obs\<lparr>lcs := None\<rparr>) = None" by simp
  have l: "lcs demo_obs = Some \<lparr>best_aperture_id = 0\<rparr>" by (simp add: demo_obs_def)
  have r: "\<not> isl (plot_precision exact_np demo_obs (1 / 8) None)" by (simp add: demo_figure)
  have a: "plot_precision exact_np (demo_obs\<lparr>lcs := None\<rparr>) (1 / 8) None = Inl (AssertionError
        ''You must set 'aperture' kwargs (light-curve not present to pick best aperture id)'')"
    using aperture_precondition[of "demo_obs\<lparr>lcs := None\<rparr>" exact_np "1 / 8"] n by blast
  have b: "select_aperture demo_obs None = Inr 0"
    "plot_precision exact_np demo_obs (1 / 8) None = precision_curves exact_np demo_obs 0 2"
    using aperture_precondition[of demo_obs exact_np "1 / 8"] l demo_bins demo_samples
    by auto
  show ?thesis
    by (intro conjI n a l b r demo_bins demo_samples)
qed

text \<open>
  Claim C7, as stated, fails: with four samples and a bin count of four (bins of a
  quarter of a day at a cadence of a sixteenth of a day) the samples are not fewer than
  the bins, and the assertion of line 542 fails all the same.
\<close>

theorem bin_count_exact_counterexample:
  "bin_count exact_np demo_obs (1 / 4) = Inr 4 \<and> int (length (time demo_obs)) = 4
   \<and> \<not> int (length (time demo_obs)) < 4
   \<and> plot_precision exact_np demo_obs (1 / 4) (Some 0)
       = Inl (AssertionError ''Your 'bins' size is less than the total exposure'')"
  by (simp add: plot_precision_def select_aperture_def bin_count_def assert_that_def
      demo_obs_def exact_np_def exact_mean_def int_of_float_def)

text \<open>
  Claim C7, amended. When the float64 quotient of the bin width by the mean cadence (the
  mean exposure time divided by the seconds of a day) is a finite number \<open>q\<close>, the bin
  count is \<open>q\<close> truncated to an integer; the estimator fails with the assertion error
  of line 542 when the number of samples is less than or equal to the bin count, and
  with more samples than bins it passes the check and goes on to the estimates.
\<close>

theorem bin_count_assertion:
  assumes "np_divide np (Num bins)
             (np_divide np (np_mean np (exptime obs)) (Num (60 * 60 * 24))) = Num q"
    and "n = int_of_float q"
  shows "bin_count np obs bins = Inr n
       \<and> (int (length (time obs)) \<le> n \<longrightarrow>
            plot_precision np obs bins (Some a)
              = Inl (AssertionError ''Your 'bins' size is less than the total exposure''))
       \<and> (n < int (length (time obs)) \<longrightarrow>
            plot_precision np obs bins (Some a) = precision_curves np obs a n)"
  using assms
  by (simp add: plot_precision_def select_aperture_def bin_count_def assert_that_def)

theorem bin_count_assertion_witness:
  "np_divide exact_np (Num (1 / 4))
     (np_divide exact_np (np_mean exact_np (exptime demo_obs)) (Num (60 * 60 * 24))) = Num 4
   \<and> bin_count exact_np demo_obs (1 / 4) = Inr 4
   \<and> plot_precision exact_np demo_obs (1 / 4) (Some 0)
       = Inl (AssertionError ''Your 'bins' size is less than the total exposure'')
   \<and> np_divide exact_np (Num (1 / 8))
     (np_divide exact_np (np_mean exact_np (exptime demo_obs)) (Num (60 * 60 * 24))) = Num 2
   \<and> bin_count exact_np demo_obs (1 / 8) = Inr 2
   \<and> plot_precision exact_np demo_obs (1 / 8) (Some 0) = precision_curves exact_np demo_obs 0 2"
proof -
  have q4: "np_divide exact_np (Num (1 / 4))
     (np_divide exact_np (np_mean exact_np (exptime demo_obs)) (Num (60 * 60 * 24))) = Num 4"
    and q2: "np_divide exact_np (Num (1 / 8))
     (np_divide exact_np (np_mean exact_np (exptime demo_obs)) (Num (60 * 60 * 24))) = Num 2"
    by (simp_all add: exact_np_def exact_mean_def demo_obs_def)
  have n4: "(4::int) = int_of_float 4" and n2: "(2::int) = int_of_float 2"
    by (simp_all add: int_of_float_def)
  have l: "int (length (time demo_obs)) = 4" by (simp add: demo_obs_def)
  show ?thesis
    using bin_count_assertion[OF q4 n4, of 0] bin_count_assertion[OF q2 n2, of 0] q4 q2 l
    by simp
qed

text \<open>
  Claim C2. When the estimator returns a figure, its photon-noise curve is
  \<open>sqrt F / F\<close>, its background-noise curve is \<open>sqrt (S * A) / F\<close> and its
  CCD-equation curve is the mean error over the mean flux, each computed in float64 and
  taken per plotted star, where \<open>F\<close> is the mean of the star's flux series, \<open>S\<close> the
  mean sky level and \<open>A\<close> the area of the aperture; each curve is plotted against the
  logarithm of \<open>F\<close>.
\<close>

theorem theoretical_curves:
  assumes "select_aperture obs ap = Inr a"
    and "bin_count np obs bins = Inr n" and "n < int (length (time obs))"
    and "as_array obs a = Inr (fl, er)" and "length er = length fl"
    and "error_estimates np (time obs) n fl = Inr es"
    and "aperture_area obs a = Inr A"
    and "plot_precision np obs bins ap = Inr fig"
    and "js = stars_by_flux np (map (np_mean np) fl) es"
  shows "photon_y fig = map (\<lambda>j. np_divide np (np_sqrt np (np_mean np (fl ! j)))
                                  (np_mean np (fl ! j))) js
       \<and> background_y fig =
           map (\<lambda>j. np_divide np (np_sqrt np (np_multiply np (np_mean np (sky obs)) (Num A)))
                       (np_mean np (fl ! j))) js
       \<and> ccd_y fig = map (\<lambda>j. np_divide np (np_mean np (er ! j)) (np_mean np (fl ! j))) js
       \<and> photon_x fig = map (\<lambda>j. np_log np (np_mean np (fl ! j))) js
       \<and> background_x fig = photon_x fig \<and> ccd_x fig = photon_x fig"
  using plot_precision_char(4-9)[OF assms(1-8) refl assms(9)] by simp

theorem theoretical_curves_witness:
  "\<exists>fig. plot_precision exact_np demo_obs (1 / 8) None = Inr fig
     \<and> photon_y fig = [Num (sqrt 1 / 1), Num (sqrt 4 / 4)]
     \<and> background_y fig = [Num (sqrt (1 * 4) / 1), Num (sqrt (1 * 4) / 4)]
     \<and> ccd_y fig = [Num (1 / 1), Num (2 / 4)]
     \<and> photon_x fig = [Num (ln 1), Num (ln 4)]"
proof -
  define fl :: "real list list" where
    "fl = [[3, 5, 3, 5], [1 / 2, 3 / 2, 1 / 2, 3 / 2], [9, 9, 9, 9]]"
  define er :: "real list list" where "er = [[2, 2, 2, 2], [1, 1, 1, 1], [3, 3, 3, 3]]"
  obtain fig where fig: "plot_precision exact_np demo_obs (1 / 8) None = Inr fig"
    using demo_figure by blast
  have h4: "as_array demo_obs 0 = Inr (fl, er)" by (simp only: demo_arrays fl_def er_def)
  have h5: "length er = length fl" by (simp add: fl_def er_def)
  have h6: "error_estimates exact_np (time demo_obs) 2 fl = Inr [Num 1, Num (1 / 2), Num 0]"
    by (simp only: demo_estimates fl_def)
  have h9: "[Suc 0, 0] = stars_by_flux exact_np (map (np_mean exact_np) fl)
                           [Num 1, Num (1 / 2), Num 0]"
    by (simp only: demo_order fl_def)
  have v: "np_mean exact_np (fl ! 0) = Num 4" "np_mean exact_np (fl ! Suc 0) = Num 1"
    "np_mean exact_np (er ! 0) = Num 2" "np_mean exact_np (er ! Suc 0) = Num 1"
    "np_mean exact_np (sky demo_obs) = Num 1"
    by (simp_all add: fl_def er_def demo_obs_def exact_np_def exact_mean_def)
  have ops: "np_divide exact_np = exact_divide" "np_sqrt exact_np = exact_sqrt"
    "np_multiply exact_np = exact_multiply" "np_log exact_np = exact_log"
    by (simp_all add: exact_np_def)
  from theoretical_curves[OF demo_select demo_bins demo_samples h4 h5 h6 demo_area fig h9]
  show ?thesis
    by (intro exI[of _ fig]) (simp add: fig v ops)
qed

text \<open>
  Claim C3, as stated, fails: the empirical inverse-SNR points are plotted in the order
  of the stars, not by ascending mean flux. With mean fluxes 4 and 1 (the third star,
  whose flux is constant, is filtered out) the points are plotted at \<open>ln 4\<close> then
  \<open>ln 1\<close>, while the curves are plotted at \<open>ln 1\<close> then \<open>ln 4\<close>.
\<close>

theorem rms_points_unsorted_counterexample:
  "map_sum id rms_x (plot_precision exact_np demo_obs (1 / 8) None) = Inr [Num (ln 4), Num (ln 1)]
   \<and> map_sum id photon_x (plot_precision exact_np demo_obs (1 / 8) None)
       = Inr [Num (ln 1), Num (ln 4)]
   \<and> \<not> ascending [Num (ln 4), Num (ln 1)]"
  by (simp add: demo_figure ascending_def)

text \<open>
  Claim C3, amended. When the estimator returns a figure, the plotted stars \<open>kept\<close> are
  exactly the stars whose empirical inverse-SNR estimate is strictly positive, at least
  one and at most as many as there are stars; the empirical points are plotted in the
  order of the stars; the photon-noise, background-noise and CCD-equation curves are
  plotted for the same stars \<open>js\<close> by ascending mean flux.
\<close>

theorem filtered_stars_and_order:
  assumes "select_aperture obs ap = Inr a"
    and "bin_count np obs bins = Inr n" and "n < int (length (time obs))"
    and "as_array obs a = Inr (fl, er)" and "length er = length fl"
    and "error_estimates np (time obs) n fl = Inr es"
    and "aperture_area obs a = Inr A"
    and "plot_precision np obs bins ap = Inr fig"
    and "kept = positive_stars np (map (np_mean np) fl) es"
    and "js = stars_by_flux np (map (np_mean np) fl) es"
  shows "(\<forall>j < length fl. binned_std_median np (time obs) (fl ! j) n = Inr (es ! j))
       \<and> (\<forall>j. j \<in> set kept \<longleftrightarrow>
                j < length fl \<and> greater_zero (np_divide np (es ! j) (np_mean np (fl ! j))))
       \<and> kept \<noteq> [] \<and> sorted kept \<and> distinct kept \<and> length kept \<le> length fl
       \<and> rms_x fig = map (\<lambda>j. np_log np (np_mean np (fl ! j))) kept
       \<and> rms_y fig = map (\<lambda>j. np_divide np (es ! j) (np_mean np (fl ! j))) kept
       \<and> set js = set kept \<and> distinct js \<and> length js = length kept
       \<and> ascending (map (\<lambda>j. np_mean np (fl ! j)) js)
       \<and> photon_x fig = map (\<lambda>j. np_log np (np_mean np (fl ! j))) js
       \<and> background_x fig = map (\<lambda>j. np_log np (np_mean np (fl ! j))) js
       \<and> ccd_x fig = map (\<lambda>j. np_log np (np_mean np (fl ! j))) js
       \<and> ccd_y fig = map (\<lambda>j. np_divide np (np_mean np (er ! j)) (np_mean np (fl ! j))) js
       \<and> length (photon_y fig) = length js \<and> length (background_y fig) = length js"
proof -
  define F where "F = map (np_mean np) fl"
  have lF: "length F = length fl" by (simp add: F_def)
  have kb: "j < length fl" if "j \<in> set kept" for j
    using that positive_stars_props(2)[where np=np and F=F and es=es] by (auto simp: F_def assms(9))
  have est: "\<forall>j < length fl. binned_std_median np (time obs) (fl ! j) n = Inr (es ! j)"
    using error_estimates_nth[OF assms(6)] by blast
  have mem: "\<forall>j. j \<in> set kept \<longleftrightarrow>
                j < length fl \<and> greater_zero (np_divide np (es ! j) (np_mean np (fl ! j)))"
    unfolding assms(9) positive_stars_props(4) by (auto simp: inv_snr_def)
  have sk: "sorted kept" by (simp add: assms(9) positive_stars_def sorted_wrt_filter)
  have dk: "distinct kept" and lk: "length kept \<le> length fl"
    using positive_stars_props(1,3)[where np=np and F=F and es=es] by (simp_all add: assms(9) F_def)
  have js: "set js = set kept" "distinct js" "length js = length kept"
    using stars_by_flux_props(1,2,3)[where np=np and F=F and es=es] by (simp_all add: assms(9,10) F_def)
  have eq: "map (\<lambda>j. np_mean np (fl ! j)) js = map (\<lambda>j. F ! j) js"
    using kb js(1) by (intro map_cong) (simp_all add: F_def)
  have so: "ascending (map (\<lambda>j. np_mean np (fl ! j)) js)"
    unfolding eq using stars_by_flux_props(4)[where np=np and F=F and es=es] by (simp add: assms(10) F_def)
  note ch = plot_precision_char[OF assms]
  show ?thesis
    apply (intro conjI)
    subgoal by (rule est)
    subgoal by (rule mem)
    subgoal by (rule ch(1))
    subgoal by (rule sk)
    subgoal by (rule dk)
    subgoal by (rule lk)
    subgoal by (rule ch(2))
    subgoal by (rule ch(3))
    subgoal by (rule js)
    subgoal by (rule js)
    subgoal by (rule js)
    subgoal by (rule so)
    subgoal by (rule ch(4))
    subgoal by (rule ch(6))
    subgoal by (rule ch(8))
    subgoal by (rule ch(9))
    subgoal by (simp add: ch(5))
    subgoal by (simp add: ch(7))
    done
qed

theorem filtered_stars_and_order_witness:
  "\<exists>fig. plot_precision exact_np demo_obs (1 / 8) None = Inr fig
     \<and> rms_x fig = [Num (ln 4), Num (ln 1)] \<and> rms_y fig = [Num (1 / 4), Num (1 / 2)]
     \<and> photon_x fig = [Num (ln 1), Num (ln 4)] \<and> ccd_y fig = [Num 1, Num (1 / 2)]
     \<and> length (photon_y fig) = 2"
proof -
  define fl :: "real list list" where
    "fl = [[3, 5, 3, 5], [1 / 2, 3 / 2, 1 / 2, 3 / 2], [9, 9, 9, 9]]"
  define er :: "real list list" where "er = [[2, 2, 2, 2], [1, 1, 1, 1], [3, 3, 3, 3]]"
  define es where "es = [Num 1, Num (1 / 2), Num 0]"
  obtain fig where fig: "plot_precision exact_np demo_obs (1 / 8) None = Inr fig"
    using demo_figure by blast
  have h4: "as_array demo_obs 0 = Inr (fl, er)" by (simp only: demo_arrays fl_def er_def)
  have h5: "length er = length fl" by (simp add: fl_def er_def)
  have h6: "error_estimates exact_np (time demo_obs) 2 fl = Inr es"
    by (simp only: demo_estimates fl_def es_def)
  have h9: "[0, Suc 0] = positive_stars exact_np (map (np_mean exact_np) fl) es"
    by (simp only: demo_kept fl_def es_def)
  have h10: "[Suc 0, 0] = stars_by_flux exact_np (map (np_mean exact_np) fl) es"
    by (simp only: demo_order fl_def es_def)
  have v: "np_mean exact_np (fl ! 0) = Num 4" "np_mean exact_np (fl ! Suc 0) = Num 1"
    "np_mean exact_np (er ! 0) = Num 2" "np_mean exact_np (er ! Suc 0) = Num 1"
    "es ! 0 = Num 1" "es ! Suc 0 = Num (1 / 2)"
    by (simp_all add: fl_def er_def es_def exact_np_def exact_mean_def)
  have ops: "np_divide exact_np = exact_divide" "np_log exact_np = exact_log"
    by (simp_all add: exact_np_def)
  from filtered_stars_and_order[OF demo_select demo_bins demo_samples h4 h5 h6 demo_area
      fig h9 h10]
  show ?thesis
    by (intro exI[of _ fig]) (simp add: fig v ops)
qed

section \<open>Properties of the measurement table\<close>

lemma digit_value_digit: "d < 10 \<Longrightarrow> digit_value (digit_chars ! d) = d"
proof -
  assume "d < 10"
  then have "d \<in> {0,1,2,3,4,5,6,7,8,9}" by auto
  then show ?thesis by (auto simp: digit_value_def digit_chars_def)
qed

lemma nat_of_str_snoc: "nat_of_str (s @ [c]) = 10 * nat_of_str s + digit_value c"
  by (simp add: nat_of_str_def)

lemma nat_of_str_str_nat: "nat_of_str (str_nat n) = n"
proof (induction n rule: str_nat.induct)
  case (1 n)
  show ?case
  proof (cases "n < 10")
    case True
    then show ?thesis
      using nat_of_str_snoc[of "[]" "digit_chars ! n"]
      by (simp add: str_nat.simps[of n] digit_value_digit nat_of_str_def)
  next
    case False
    then show ?thesis
      using 1 by (simp add: str_nat.simps[of n] nat_of_str_snoc digit_value_digit)
  qed
qed

lemma str_nat_inj: "str_nat m = str_nat n \<Longrightarrow> m = n"
  by (metis nat_of_str_str_nat)

lemma assign_every_second_length [simp]:
  "length (assign_every_second xs i vs) = length xs"
  by (induction vs arbitrary: xs i) simp_all

lemma assign_every_second_shift:
  "assign_every_second (pre @ zs) (length pre + i) vs = pre @ assign_every_second zs i vs"
proof (induction vs arbitrary: zs i)
  case Nil
  then show ?case by simp
next
  case (Cons v vs)
  have "(pre @ zs)[length pre + i := v] = pre @ zs[i := v]"
    by (simp add: list_update_append)
  moreover have "length pre + i + 2 = length pre + (i + 2)" by simp
  ultimately show ?case using Cons.IH[of "zs[i := v]" "i + 2"] by simp
qed

lemma assign_evens:
  "assign_every_second (replicate (2 * length xs) None) 0 (map Some xs)
     = concat (map (\<lambda>x. [Some x, None]) xs)"
proof (induction xs)
  case Nil
  then show ?case by simp
next
  case (Cons x xs)
  have "assign_every_second ([Some x, None] @ replicate (2 * length xs) None)
          (length [Some x, None :: 'a option] + 0) (map Some xs)
        = [Some x, None] @ assign_every_second (replicate (2 * length xs) None) 0 (map Some xs)"
    by (rule assign_every_second_shift)
  then show ?case using Cons.IH by simp
qed

lemma assign_odds:
  "length ys = length xs \<Longrightarrow>
   assign_every_second (concat (map (\<lambda>x. [Some x, None]) xs)) 1 (map Some ys)
     = concat (map2 (\<lambda>x y. [Some x, Some y]) xs ys)"
proof (induction ys xs rule: list_induct2)
  case Nil
  then show ?case by simp
next
  case (Cons y ys x xs)
  have "assign_every_second ([Some x, Some y] @ concat (map (\<lambda>x. [Some x, None]) xs))
          (length [Some x, Some y] + 1) (map Some ys)
        = [Some x, Some y] @ assign_every_second (concat (map (\<lambda>x. [Some x, None]) xs)) 1 (map Some ys)"
    by (rule assign_every_second_shift)
  then show ?case using Cons.IH by (simp add: numeral_3_eq_3)
qed

lemma length_concat_pairs: "length (concat (map (\<lambda>x. [f x, g x]) xs)) = 2 * length xs"
  by (induction xs) simp_all

lemma interleaved_eq:
  assumes "length ys = length xs"
  shows "interleaved xs ys = Inr (concat (map2 (\<lambda>x y. [Some x, Some y]) xs ys))"
proof -
  have r: "replicate (length xs + length ys) None = replicate (2 * length xs) (None :: 'a option)"
    using assms by (simp add: mult_2)
  show ?thesis
    unfolding interleaved_def Let_def r
    using assms
    by (simp add: slice_assign_def assign_evens assign_odds[unfolded One_nat_def] length_concat_pairs)
qed

lemma map2_same: "map2 f (map a l) (map b l) = map (\<lambda>i. f (a i) (b i)) l"
  by (induction l) simp_all

lemma interleaved_maps:
  "interleaved (map a l) (map b l) = Inr (concat (map (\<lambda>i. [Some (a i), Some (b i)]) l))"
  using interleaved_eq[of "map b l" "map a l"] by (simp add: map2_same)

lemma zip_concat_pairs:
  "zip (concat (map (\<lambda>i. [a i, b i]) l)) (concat (map (\<lambda>i. [c i, d i]) l))
     = concat (map (\<lambda>i. [(a i, c i), (b i, d i)]) l)"
  by (induction l) simp_all

lemma star_series_eq:
  "ap < length a \<Longrightarrow> \<forall>i \<in> set stars. i < length (a ! ap) \<Longrightarrow>
     star_series a ap stars = Inr (map (\<lambda>i. a ! ap ! i) stars)"
  by (induction stars) (simp_all add: getitem_def)

lemma dict_set_fresh: "k \<notin> fst ` set d \<Longrightarrow> dict_set k v d = d @ [(k, v)]"
  by (induction d) auto

lemma fold_dict_set_distinct:
  "distinct (map fst (d @ items)) \<Longrightarrow> fold (\<lambda>(k, v) d. dict_set k v d) items d = d @ items"
proof (induction items arbitrary: d)
  case Nil
  then show ?case by simp
next
  case (Cons p items)
  obtain k v where p: "p = (k, v)" by (cases p)
  have fresh: "k \<notin> fst ` set d" using Cons.prems by (auto simp: p)
  have "distinct (map fst ((d @ [(k, v)]) @ items))" using Cons.prems by (simp add: p)
  from Cons.IH[OF this] show ?case by (simp add: p dict_set_fresh[OF fresh])
qed

lemma dict_of_distinct: "distinct (map fst items) \<Longrightarrow> dict_of items = items"
  using fold_dict_set_distinct[of "[]" items] by (simp add: dict_of_def)

lemma remdups_constant: "xs \<noteq> [] \<Longrightarrow> \<forall>x \<in> set xs. x = n \<Longrightarrow> remdups xs = [n]"
proof (induction xs)
  case Nil
  then show ?case by simp
next
  case (Cons x xs)
  then show ?case by (cases xs) auto
qed

lemma DataFrame_arrays:
  assumes "length ks = length arrs" and "arrs \<noteq> []" and "\<forall>a \<in> set arrs. length a = n"
  shows "DataFrame (zip (map Some ks) (map Some arrs))
         = Inr \<lparr>columns = map Some ks,
                rows = map (\<lambda>r. map (\<lambda>a. Some (a ! r)) arrs) [0..<n]\<rparr>"
proof -
  define d where "d = zip (map Some ks) (map Some arrs)"
  have fd: "map fst d = map Some ks" and sd: "map snd d = map Some arrs"
    using assms(1) by (simp_all add: d_def)
  have "concat (map (\<lambda>(k, v). case v of None \<Rightarrow> [] | Some a \<Rightarrow> [length a]) d)
        = concat (map (\<lambda>v. case v of None \<Rightarrow> [] | Some a \<Rightarrow> [length a]) (map snd d))"
    by (simp add: comp_def case_prod_unfold)
  also have "\<dots> = map length arrs" unfolding sd by (induction arrs) simp_all
  finally have c: "concat (map (\<lambda>(k, v). case v of None \<Rightarrow> [] | Some a \<Rightarrow> [length a]) d)
                   = map length arrs" .
  have l: "remdups (map length arrs) = [n]"
    using assms(2,3) by (intro remdups_constant) simp_all
  have "map (\<lambda>(k, v). cell v r) d = map (\<lambda>v. cell v r) (map snd d)" for r
    by (simp add: comp_def case_prod_unfold)
  then have row: "map (\<lambda>(k, v). cell v r) d = map (\<lambda>a. Some (a ! r)) arrs" for r
    unfolding sd by (simp add: cell_def comp_def)
  show ?thesis
    unfolding d_def[symmetric] DataFrame_def Let_def c l by (simp add: fd row)
qed

lemma star_keys_distinct:
  "distinct stars \<Longrightarrow>
   distinct (concat (map (\<lambda>i. [Some (''DIFF_FLUX_C'' @ str_nat i),
                              Some (''DIFF_ERROR_C'' @ str_nat i)]) stars))"
proof (induction stars)
  case Nil
  then show ?case by simp
next
  case (Cons i stars)
  have "str_nat i \<noteq> str_nat j" if "j \<in> set stars" for j
    using that Cons.prems str_nat_inj[of i j] by auto
  then show ?case using Cons by auto
qed

lemma star_keys_set:
  "k \<in> set (concat (map (\<lambda>i. [Some (''DIFF_FLUX_C'' @ str_nat i),
                                Some (''DIFF_ERROR_C'' @ str_nat i)]) stars))
   \<Longrightarrow> \<exists>s. k = Some (''DIFF_FLUX_C'' @ s) \<or> k = Some (''DIFF_ERROR_C'' @ s)"
  by auto

lemma csv_keys_distinct:
  assumes "distinct stars" and "tn = ''BJD-TDB'' \<or> tn = ''JD-UTC''"
  shows "distinct (map Some (expected_columns tn stars))"
proof -
  define inner where "inner = concat (map (\<lambda>i. [Some (''DIFF_FLUX_C'' @ str_nat i),
                              Some (''DIFF_ERROR_C'' @ str_nat i)]) stars)"
  have m: "map Some (expected_columns tn stars)
           = [Some tn, Some ''DIFF_FLUX_T1'', Some ''DIFF_ERROR_T1''] @ inner
             @ [Some ''dx'', Some ''dy'', Some ''FWHM'', Some ''SKYLEVEL'', Some ''AIRMASS'',
                Some ''EXPOSURE'']"
    by (simp add: expected_columns_def inner_def map_concat comp_def)
  have di: "distinct inner" unfolding inner_def by (rule star_keys_distinct[OF assms(1)])
  have out: "Some k \<notin> set inner"
    if "k \<in> {''BJD-TDB'', ''JD-UTC'', ''DIFF_FLUX_T1'', ''DIFF_ERROR_T1'', ''dx'', ''dy'', ''FWHM'',
              ''SKYLEVEL'', ''AIRMASS'', ''EXPOSURE''}" for k
  proof
    assume "Some k \<in> set inner"
    from star_keys_set[OF this[unfolded inner_def]]
    obtain s where "k = ''DIFF_FLUX_C'' @ s \<or> k = ''DIFF_ERROR_C'' @ s" by auto
    with that show False by auto
  qed
  show ?thesis
    unfolding m using di out assms(2) by auto
qed

text \<open>
  Claim C1. For an observation whose comparison stars are distinct and in range and
  whose time series all have the length of \<open>time\<close>, the table written by
  \<open>to_csv_report\<close> has these columns in this order: the time column, named
  \<open>BJD-TDB\<close> when \<open>time_format\<close> is \<open>bjd_tdb\<close> and \<open>JD-UTC\<close> otherwise, the
  differential flux and error of the target, for each comparison star in order its flux
  column immediately followed by its error column, then \<open>dx\<close>, \<open>dy\<close>, \<open>FWHM\<close>,
  \<open>SKYLEVEL\<close>, \<open>AIRMASS\<close>, \<open>EXPOSURE\<close>; it has one row for each observation
  epoch, and row \<open>r\<close> holds the value of each column's series at epoch \<open>r\<close>.
\<close>

theorem csv_column_order:
  assumes "getitem (comps obs) (aperture obs) = Inr stars" and "distinct stars"
    and "aperture obs < length (diff_fluxes obs)" and "aperture obs < length (diff_errors obs)"
    and "\<forall>i \<in> set stars. i < length (diff_fluxes obs ! aperture obs)
                          \<and> i < length (diff_errors obs ! aperture obs)"
    and "\<forall>a \<in> set (expected_arrays obs stars). length a = length (time obs)"
    and "time_column = (if time_format obs = ''bjd_tdb'' then ''BJD-TDB'' else ''JD-UTC'')"
  shows "\<exists>df. to_csv_report obs = Inr df
       \<and> columns df = map Some (expected_columns time_column stars)
       \<and> length (rows df) = length (time obs)
       \<and> (\<forall>r < length (time obs).
            rows df ! r = map (\<lambda>a. Some (a ! r)) (expected_arrays obs stars))"
proof -
  define ap where "ap = aperture obs"
  define F where "F = (\<lambda>i. ''DIFF_FLUX_C'' @ str_nat i)"
  define E where "E = (\<lambda>i. ''DIFF_ERROR_C'' @ str_nat i)"
  define df where "df = (\<lambda>i. diff_fluxes obs ! ap ! i)"
  define de where "de = (\<lambda>i. diff_errors obs ! ap ! i)"
  define inner where
    "inner = concat (map (\<lambda>i. [(Some (F i), Some (df i)), (Some (E i), Some (de i))]) stars)"
  define items where
    "items = [(Some time_column, Some (time obs)),
              (Some ''DIFF_FLUX_T1'', Some (diff_flux obs)),
              (Some ''DIFF_ERROR_T1'', Some (diff_error obs))]
             @ inner
             @ [(Some ''dx'', Some (dx obs)), (Some ''dy'', Some (dy obs)),
                (Some ''FWHM'', Some (fwhm obs)), (Some ''SKYLEVEL'', Some (sky obs)),
                (Some ''AIRMASS'', Some (airmass obs)), (Some ''EXPOSURE'', Some (exptime obs))]"
  define cols where "cols = expected_columns time_column stars"
  define arrs where "arrs = expected_arrays obs stars"
  have names: "interleaved (map F stars) (map E stars)
               = Inr (concat (map (\<lambda>i. [Some (F i), Some (E i)]) stars))"
    by (rule interleaved_maps)
  have s1: "star_series (diff_fluxes obs) ap stars = Inr (map df stars)"
    using star_series_eq[of ap "diff_fluxes obs" stars] assms(3,5) by (simp add: ap_def df_def)
  have s2: "star_series (diff_errors obs) ap stars = Inr (map de stars)"
    using star_series_eq[of ap "diff_errors obs" stars] assms(4,5) by (simp add: ap_def de_def)
  have arrays: "interleaved (map df stars) (map de stars)
               = Inr (concat (map (\<lambda>i. [Some (df i), Some (de i)]) stars))"
    by (rule interleaved_maps)
  have z: "zip (concat (map (\<lambda>i. [Some (F i), Some (E i)]) stars))
               (concat (map (\<lambda>i. [Some (df i), Some (de i)]) stars)) = inner"
    unfolding inner_def by (rule zip_concat_pairs)
  have fi: "map fst items = map Some cols"
    by (simp add: items_def inner_def cols_def expected_columns_def map_concat comp_def F_def E_def)
  have si: "map snd items = map Some arrs"
    by (simp add: items_def inner_def arrs_def expected_arrays_def map_concat comp_def
        df_def de_def ap_def)
  have tc: "time_column = ''BJD-TDB'' \<or> time_column = ''JD-UTC''" using assms(7) by simp
  have dist: "distinct (map fst items)"
    unfolding fi cols_def by (rule csv_keys_distinct[OF assms(2) tc])
  have "distinct (map fst inner)"
    using dist by (simp add: items_def)
  then have d1: "dict_of inner = inner" by (rule dict_of_distinct)
  have d2: "dict_of items = items" using dist by (rule dict_of_distinct)
  have g: "getitem (comps obs) ap = Inr stars" using assms(1) by (simp add: ap_def)
  have "to_csv_report obs = DataFrame (dict_of items)"
    unfolding to_csv_report_def Let_def ap_def[symmetric] F_def[symmetric]
      E_def[symmetric] assms(7)[symmetric] g sum.case names s1 s2 arrays z d1 items_def
    by (rule refl)
  then have run: "to_csv_report obs = DataFrame items" by (simp only: d2)
  have zi: "items = zip (map Some cols) (map Some arrs)"
    using zip_map_fst_snd[of items] by (simp add: fi si)
  have lc: "length cols = length arrs"
    using fi si by (metis length_map)
  have ne: "arrs \<noteq> []" by (simp add: arrs_def expected_arrays_def)
  have la: "\<forall>a \<in> set arrs. length a = length (time obs)"
    using assms(6) by (simp add: arrs_def)
  note frame = DataFrame_arrays[OF lc ne la]
  show ?thesis
    unfolding run zi frame cols_def[symmetric] arrs_def[symmetric] by simp
qed

theorem csv_column_order_witness:
  "\<exists>df. to_csv_report demo_report = Inr df
     \<and> columns df = map Some [''BJD-TDB'', ''DIFF_FLUX_T1'', ''DIFF_ERROR_T1'',
         ''DIFF_FLUX_C2'', ''DIFF_ERROR_C2'', ''DIFF_FLUX_C0'', ''DIFF_ERROR_C0'',
         ''dx'', ''dy'', ''FWHM'', ''SKYLEVEL'', ''AIRMASS'', ''EXPOSURE'']
     \<and> length (rows df) = 4"
proof -
  have h1: "getitem (comps demo_report) (aperture demo_report) = Inr [2, 0]"
    by (simp add: demo_report_def demo_obs_def getitem_def observation.defs report.defs)
  have h2: "distinct [2, 0 :: nat]" by simp
  have h3: "aperture demo_report < length (diff_fluxes demo_report)"
    and h4: "aperture demo_report < length (diff_errors demo_report)"
    by (simp_all add: demo_report_def demo_obs_def observation.defs report.defs)
  have h5: "\<forall>i \<in> set [2, 0]. i < length (diff_fluxes demo_report ! aperture demo_report)
                          \<and> i < length (diff_errors demo_report ! aperture demo_report)"
    by (simp add: demo_report_def demo_obs_def observation.defs report.defs)
  have h6: "\<forall>a \<in> set (expected_arrays demo_report [2, 0]). length a = length (time demo_report)"
    by (simp add: expected_arrays_def demo_report_def demo_obs_def observation.defs report.defs)
  have h7: "''BJD-TDB'' = (if time_format demo_report = ''bjd_tdb'' then ''BJD-TDB'' else ''JD-UTC'')"
    by (simp add: demo_report_def demo_obs_def observation.defs report.defs)
  have c: "expected_columns ''BJD-TDB'' [2, 0] = [''BJD-TDB'', ''DIFF_FLUX_T1'', ''DIFF_ERROR_T1'',
         ''DIFF_FLUX_C2'', ''DIFF_ERROR_C2'', ''DIFF_FLUX_C0'', ''DIFF_ERROR_C0'',
         ''dx'', ''dy'', ''FWHM'', ''SKYLEVEL'', ''AIRMASS'', ''EXPOSURE'']"
    by (simp add: expected_columns_def str_nat.simps digit_chars_def)
  have l: "length (time demo_report) = 4"
    by (simp add: demo_report_def demo_obs_def observation.defs report.defs)
  from csv_column_order[OF h1 h2 h3 h4 h5 h6 h7]
  show ?thesis unfolding c l by blast
qed

section \<open>Properties of the metadata table and of the report assembly\<close>










text \<open>
  The steps of \<open>make\<close> when no step fails: the two directories where absent, the six
  figures, the model figure when \<open>t0\<close> is true and a duration is given, the
  measurement table, the style file, the rendered template.
\<close>

lemma step_ok:
  "\<forall>a. fails env a = None \<Longrightarrow>
     step env a \<lparr>trace = t, failure = None\<rparr> = \<lparr>trace = t @ [a], failure = None\<rparr>"
  by (simp add: step_def)

lemma demo_report_csv: "\<exists>df. to_csv_report demo_report = Inr df"
  by (simp add: to_csv_report_def demo_report_def demo_obs_def observation.defs report.defs
      getitem_def interleaved_def slice_assign_def dict_of_def DataFrame_def
      str_nat.simps digit_chars_def)

lemma make_steps:
  assumes ok: "\<forall>a. fails env a = None" and csv: "to_csv_report obs = Inr df"
    and figs: "figs = path_join dest ''figures''"
  shows "make env obs dest t0 duration =
    \<lparr>trace =
       (if path_exists env dest then [] else [Mkdir dest])
       @ (if path_exists env figs then [] else [Mkdir figs])
       @ [Savefig ''plot_psf'' (path_join figs ''psf.png''),
          Savefig ''plot_comps'' (path_join figs ''comparison.png''),
          Savefig ''plot_raw'' (path_join figs ''raw.png''),
          Savefig ''plot_syst'' (path_join figs ''systematics.png''),
          Savefig ''plot_stars'' (path_join figs ''stars.png''),
          Savefig ''plot_lc'' (path_join figs ''lightcurve.png'')]
       @ (if truthy t0 \<and> duration \<noteq> None
          then [Savefig ''plot_lc_model'' (path_join figs ''model.png'')] else [])
       @ [ToCsv (path_join dest (report_name_of env dest @ ''.txt'')) df,
          Copyfile (path_join (template_folder env) ''prose-report.cls'')
                   (path_join dest ''prose-report.cls''),
          WriteTex (path_join dest (report_name_of env dest @ ''.tex''))],
     failure = None\<rparr>"
proof -
  define t1 where "t1 = (if path_exists env dest then [] else [Mkdir dest])
                        @ (if path_exists env figs then [] else [Mkdir figs])"
  have folder: "make_report_folder env dest \<lparr>trace = [], failure = None\<rparr>
                = \<lparr>trace = t1, failure = None\<rparr>"
    by (simp add: make_report_folder_def report_paths_of_def Let_def step_ok[OF ok] t1_def figs)
  define t2 where "t2 = t1 @ [Savefig ''plot_psf'' (path_join figs ''psf.png''),
          Savefig ''plot_comps'' (path_join figs ''comparison.png''),
          Savefig ''plot_raw'' (path_join figs ''raw.png''),
          Savefig ''plot_syst'' (path_join figs ''systematics.png''),
          Savefig ''plot_stars'' (path_join figs ''stars.png''),
          Savefig ''plot_lc'' (path_join figs ''lightcurve.png'')]
       @ (if truthy t0 \<and> duration \<noteq> None
          then [Savefig ''plot_lc_model'' (path_join figs ''model.png'')] else [])"
  have figures: "make_figures env figs t0 duration \<lparr>trace = t1, failure = None\<rparr>
                 = \<lparr>trace = t2, failure = None\<rparr>"
    by (simp add: make_figures_def Let_def step_ok[OF ok] t2_def)
  have table: "csv_step env obs p \<lparr>trace = t2, failure = None\<rparr>
               = \<lparr>trace = t2 @ [ToCsv p df], failure = None\<rparr>" for p
    by (simp add: csv_step_def csv step_ok[OF ok])
  have "make env obs dest t0 duration =
          step env (WriteTex (path_join dest (report_name_of env dest @ ''.tex'')))
            (step env (Copyfile (path_join (template_folder env) ''prose-report.cls'')
                                (path_join dest ''prose-report.cls''))
               (csv_step env obs (path_join dest (report_name_of env dest @ ''.txt''))
                  (make_figures env figs t0 duration
                     (make_report_folder env dest \<lparr>trace = [], failure = None\<rparr>))))"
    by (simp add: make_def Let_def report_paths_of_def figs)
  also have "\<dots> = \<lparr>trace = t2 @ [ToCsv (path_join dest (report_name_of env dest @ ''.txt'')) df,
          Copyfile (path_join (template_folder env) ''prose-report.cls'')
                   (path_join dest ''prose-report.cls''),
          WriteTex (path_join dest (report_name_of env dest @ ''.tex''))], failure = None\<rparr>"
    unfolding folder figures table by (simp add: step_ok[OF ok])
  finally show ?thesis by (simp add: t2_def t1_def)
qed

text \<open>
  Claim C5 at \<open>t0 = 0\<close> with a duration of a tenth of a day: both are given, and no
  model figure is saved, because \<open>t0\<close> is tested for its truth value (line 232); with
  \<open>t0 = 1\<close> the model figure is saved.
\<close>

theorem make_zero_t0_no_model:
  "Savefig ''plot_lc_model'' ''report/figures/model.png''
     \<notin> set (trace (make demo_surroundings demo_report ''report'' (Some 0) (Some (1 / 10))))
   \<and> failure (make demo_surroundings demo_report ''report'' (Some 0) (Some (1 / 10))) = None
   \<and> Savefig ''plot_lc_model'' ''report/figures/model.png''
     \<in> set (trace (make demo_surroundings demo_report ''report'' (Some 1) (Some (1 / 10))))"
proof -
  obtain df where df: "to_csv_report demo_report = Inr df"
    using demo_report_csv by blast
  have f: "\<forall>a. fails demo_surroundings a = None" by (simp add: demo_surroundings_def)
  have p: "''report/figures'' = path_join ''report'' ''figures''" by (simp add: path_join_def)
  show ?thesis
    unfolding make_steps[OF f df p]
    by (simp add: truthy_def path_join_def demo_surroundings_def)
qed

section \<open>Properties of the PDF report\<close>

lemma bind_plot_raw_diff:
  "bind_arguments ''plot_raw_diff'' 0 [''std'']
     = Some (TypeError (''plot_raw_diff() got an unexpected keyword argument '' @ quoted ''std''))"
  by (simp add: bind_arguments_def parameters_of_def)

lemma bind_show_stars: "bind_arguments ''show_stars'' 1 [''view''] = None"
  by (simp add: bind_arguments_def parameters_of_def)

lemma perform_raised: "raised_error r \<noteq> None \<Longrightarrow> perform env a r = r"
  by (simp add: perform_def)

lemma plot_call_raised: "raised_error r \<noteq> None \<Longrightarrow> plot_call env m p k f r = r"
  by (simp add: plot_call_def)

lemma no_output_perform:
  "no_output r \<Longrightarrow> (\<And>p rows. a \<noteq> PdfOutput p rows) \<Longrightarrow> no_output (perform env a r)"
  by (auto simp: no_output_def perform_def split: option.splits)

lemma no_output_raised: "no_output (r\<lparr>raised_error := e\<rparr>) = no_output r"
  by (simp add: no_output_def)

lemma no_output_plot_call: "no_output r \<Longrightarrow> no_output (plot_call env m p k f r)"
  by (simp add: plot_call_def no_output_perform no_output_raised split: option.splits)

lemma raw_diff_call_raises:
  "raised_error (plot_call env ''plot_raw_diff'' 0 [''std''] f r) \<noteq> None"
  by (simp add: plot_call_def bind_plot_raw_diff)

lemma save_report_stops:
  "raised_error (save_report np fmt env dest remove_temp) \<noteq> None
   \<and> no_output (save_report np fmt env dest remove_temp)"
proof -
  define tf where "tf = temp_folder_of env dest"
  define r0 where "r0 = \<lparr>performed = [], raised_error = None\<rparr>"
  define r1 where "r1 = (if isdir env ''temp'' then perform env (Rmtree tf) r0 else r0)"
  define r2 where "r2 = (if \<not> isdir env ''temp'' \<and> exists_path env tf
                         then perform env (Rmtree tf) r1 else r1)"
  define r3 where "r3 = perform env (MkdirTemp tf) r2"
  define r4 where "r4 = plot_call env ''show_stars'' 1 [''view''] (tf @ ''/starplot.png'') r3"
  define r5 where "r5 = plot_call env ''plot_raw_diff'' 0 [''std''] (tf @ ''/lcreport.png'') r4"
  have n0: "no_output r0" by (simp add: no_output_def r0_def)
  have n1: "no_output r1" using n0 by (simp add: r1_def no_output_perform)
  have n2: "no_output r2" using n1 by (simp add: r2_def no_output_perform)
  have n3: "no_output r3" using n2 by (simp add: r3_def no_output_perform)
  have n4: "no_output r4" using n3 by (simp add: r4_def no_output_plot_call)
  have n5: "no_output r5" using n4 by (simp add: r5_def no_output_plot_call)
  have e5: "raised_error r5 \<noteq> None" unfolding r5_def by (rule raw_diff_call_raises)
  have "save_report np fmt env dest remove_temp = r5"
    unfolding save_report_def Let_def tf_def[symmetric] r0_def[symmetric] r1_def[symmetric]
      r2_def[symmetric] r3_def[symmetric] r4_def[symmetric] r5_def[symmetric]
    using e5 by (simp add: plot_call_raised perform_raised split: prod.splits)
  then show ?thesis using n5 e5 by simp
qed

text \<open>
  Claim C4 on the code: \<open>save_report\<close> passes the keyword \<open>std\<close> to
  \<open>plot_raw_diff\<close>, which has no such parameter (lines 378 and 428), so every call
  raises before the page and its PSF table are written, and no ellipticity is ever
  computed. Where nothing else fails, the run ends with that TypeError after the first
  figure.
\<close>

theorem save_report_raises_before_ellipticity:
  "raised_error (save_report np fmt env dest remove_temp) \<noteq> None
   \<and> (\<forall>p rows. PdfOutput p rows \<notin> set (performed (save_report np fmt env dest remove_temp)))
   \<and> save_report np fmt demo_pdf_surroundings ''report'' True
       = \<lparr>performed = [MkdirTemp ''temp'', Figure ''show_stars'' ''temp/starplot.png''],
          raised_error = Some (TypeError
            (''plot_raw_diff() got an unexpected keyword argument '' @ quoted ''std''))\<rparr>"
proof -
  have "save_report np fmt demo_pdf_surroundings ''report'' True
       = \<lparr>performed = [MkdirTemp ''temp'', Figure ''show_stars'' ''temp/starplot.png''],
          raised_error = Some (TypeError
            (''plot_raw_diff() got an unexpected keyword argument '' @ quoted ''std''))\<rparr>"
    by (simp add: save_report_def demo_pdf_surroundings_def perform_def plot_call_def Let_def
        bind_plot_raw_diff bind_show_stars[unfolded One_nat_def])
  then show ?thesis
    using save_report_stops[of np fmt env dest remove_temp] by (simp add: no_output_def)
qed

end
